theory Spec2Isabelle
  imports Complex_Main "HOL-Library.Log_Nat"
begin

section \<open>Numbers, lengths, colours and the drawing primitives\<close>

text \<open>
  The script \<^verbatim>\<open>generate_pptx.py\<close> builds one slide through the python-pptx
  library. The lines before the imports only give the \<^verbatim>\<open>collections\<close> module the
  names newer Pythons moved to \<^verbatim>\<open>collections.abc\<close>; they draw nothing and are left
  out.

  A Python number is an \<^verbatim>\<open>int\<close> or a \<^verbatim>\<open>float\<close>. An \<^verbatim>\<open>int\<close> is an \<open>int\<close>
  here; a \<^verbatim>\<open>float\<close> is the rational that the double stands for. \<^verbatim>\<open>int(x)\<close> and
  the \<^verbatim>\<open>%d\<close> of string formatting cut a number towards zero: \<open>py_int\<close>.
\<close>

definition py_int :: "rat \<Rightarrow> int" where
  "py_int x = (if 0 \<le> x then \<lfloor>x\<rfloor> else \<lceil>x\<rceil>)"

text \<open>
  Every operation on floats returns the double nearest the exact result, a tie going to
  the even significand: \<open>fl\<close>. A double has 53 significant bits, so the doubles around
  \<open>x\<close> are the multiples of \<open>2 powi (expo x - 52)\<close>, where \<open>2 powi expo x\<close> is the
  power of two at or below the size of \<open>x\<close>. The range of the exponent is left out: no
  overflow and no subnormal number, which lie beyond 10 to the power 300 in either
  direction.
\<close>

definition round_half_even :: "rat \<Rightarrow> int" where
  "round_half_even y =
     (let f = \<lfloor>y\<rfloor>; r = y - of_int f
      in if r < 1 / 2 then f else if 1 / 2 < r then f + 1 else if even f then f else f + 1)"

definition expo :: "rat \<Rightarrow> int" where
  "expo x =
     (let d = bitlen (fst (quotient_of \<bar>x\<bar>)) - bitlen (snd (quotient_of \<bar>x\<bar>))
      in if 2 powi d \<le> \<bar>x\<bar> then d else d - 1)"

definition fl :: "rat \<Rightarrow> rat" where
  "fl x =
     (if x = 0 then 0
      else let u = 2 powi (expo x - 52) in of_int (round_half_even (x / u)) * u)"

text \<open>An \<^verbatim>\<open>int\<close> that meets a float in an operation is converted to a float first.\<close>

definition py_float :: "int \<Rightarrow> rat" where
  "py_float i = fl (of_int i)"

text \<open>
  The library's lengths are whole English Metric Units (914400 to the inch, 12700 to
  the point). \<^verbatim>\<open>Inches(x)\<close> is \<^verbatim>\<open>int(x * 914400)\<close>; the script gives it decimal
  literals, which are floats: the literal is rounded to a double and so is the product.
  \<^verbatim>\<open>Pt(x)\<close> is \<^verbatim>\<open>int(x * 12700)\<close>, which the script gives whole numbers.
\<close>

type_synonym length = rat

definition Inches :: "rat \<Rightarrow> int" where
  "Inches x = py_int (fl (fl x * py_float 914400))"

definition Pt :: "rat \<Rightarrow> length" where
  "Pt x = of_int (py_int (x * 12700))"

datatype RGBColor = RGBColor nat nat nat

definition PASTEL_BLUE :: RGBColor where
  "PASTEL_BLUE = RGBColor 0xA7 0xD3 0xF1"

definition PASTEL_GREEN :: RGBColor where
  "PASTEL_GREEN = RGBColor 0xBF 0xE7 0xC6"

definition TEXT_DARK :: RGBColor where
  "TEXT_DARK = RGBColor 0x22 0x22 0x22"

definition LINE_LIGHT :: RGBColor where
  "LINE_LIGHT = RGBColor 0xCC 0xCC 0xCC"

datatype MSO_SHAPE = ROUNDED_RECTANGLE | RECTANGLE

datatype PP_ALIGN = LEFT | CENTER | RIGHT | JUSTIFY

text \<open>
  A fill is untouched, solid with an optional foreground colour, or the background
  (nothing is painted: for a shape's line this is "no border").
\<close>

datatype fill_format = FillUnset | FillSolid "RGBColor option" | FillBackground

datatype shape_kind = AutoShape MSO_SHAPE | TextBox

text \<open>A run of text; a font attribute is \<open>None\<close> until the script assigns it.\<close>

record run =
  run_text :: string
  font_name :: "string option"
  font_size :: "length option"
  font_bold :: "bool option"
  font_color :: "RGBColor option"

record para =
  p_level :: nat
  p_space_after :: "length option"
  p_alignment :: "PP_ALIGN option"
  p_runs :: "run list"

record shape =
  sh_kind :: shape_kind
  sh_left :: int
  sh_top :: int
  sh_width :: int
  sh_height :: int
  sh_fill :: fill_format
  sh_line_fill :: fill_format
  sh_word_wrap :: "bool option"
  sh_paragraphs :: "para list"

record slide =
  shapes :: "shape list"

definition new_run :: run where
  "new_run = \<lparr>run_text = [], font_name = None, font_size = None,
              font_bold = None, font_color = None\<rparr>"

definition new_paragraph :: para where
  "new_paragraph = \<lparr>p_level = 0, p_space_after = None, p_alignment = None, p_runs = []\<rparr>"

text \<open>
  \<^verbatim>\<open>shapes.add_shape\<close> and \<^verbatim>\<open>shapes.add_textbox\<close> take the place of the new
  shape as numbers and write each into the shape with \<^verbatim>\<open>%d\<close>: the shape holds whole
  units, a float cut towards zero. A new autoshape has no fill and no line of its own
  (its style decides) and one centred paragraph without runs. A new text box has no
  fill (\<^verbatim>\<open>noFill\<close>, which is what \<^verbatim>\<open>fill.background()\<close> sets), no wrapping and one
  paragraph without runs.

  The library hands the new shape back and the script updates it in place; no other
  shape is added to the slide before those updates end, so each function below finishes
  the shape and then appends it with \<open>append_shape\<close>.
\<close>

definition new_autoshape :: "MSO_SHAPE \<Rightarrow> rat \<Rightarrow> rat \<Rightarrow> rat \<Rightarrow> rat \<Rightarrow> shape" where
  "new_autoshape m left top' width height =
     \<lparr>sh_kind = AutoShape m,
      sh_left = py_int left, sh_top = py_int top',
      sh_width = py_int width, sh_height = py_int height,
      sh_fill = FillUnset, sh_line_fill = FillUnset, sh_word_wrap = None,
      sh_paragraphs = [new_paragraph\<lparr>p_alignment := Some CENTER\<rparr>]\<rparr>"

definition new_textbox :: "rat \<Rightarrow> rat \<Rightarrow> rat \<Rightarrow> rat \<Rightarrow> shape" where
  "new_textbox left top' width height =
     \<lparr>sh_kind = TextBox,
      sh_left = py_int left, sh_top = py_int top',
      sh_width = py_int width, sh_height = py_int height,
      sh_fill = FillBackground, sh_line_fill = FillUnset, sh_word_wrap = Some False,
      sh_paragraphs = [new_paragraph]\<rparr>"

definition append_shape :: "slide \<Rightarrow> shape \<Rightarrow> slide" where
  "append_shape s sh = s\<lparr>shapes := shapes s @ [sh]\<rparr>"

text \<open>
  \<^verbatim>\<open>tf.clear()\<close>: all paragraphs but the first go, and the first loses its runs
  and keeps its properties.
\<close>

definition tf_clear :: "para list \<Rightarrow> para list" where
  "tf_clear ps = (case ps of [] \<Rightarrow> [] | p # _ \<Rightarrow> [p\<lparr>p_runs := []\<rparr>])"

text \<open>
  \<^verbatim>\<open>tf.add_paragraph()\<close> appends a fresh paragraph and returns it, and the caller
  updates it before anything else is appended: \<open>add_paragraph\<close> takes \<open>new_paragraph\<close>
  with those updates done.
\<close>

definition add_paragraph :: "para list \<Rightarrow> para \<Rightarrow> para list" where
  "add_paragraph ps p = ps @ [p]"

text \<open>\<^verbatim>\<open>p.add_run()\<close> appends a fresh run; \<open>add_run\<close> takes it as \<open>set_run\<close> leaves it.\<close>

definition add_run :: "para \<Rightarrow> run \<Rightarrow> para" where
  "add_run p r = p\<lparr>p_runs := p_runs p @ [r]\<rparr>"

section \<open>The script's functions\<close>

text \<open>
  \<^verbatim>\<open>set_run(run, text, size=18, bold=False, color=TEXT_DARK, name="Segoe UI")\<close>;
  every caller leaves \<open>color\<close> and \<open>name\<close> at their defaults.
\<close>

definition set_run :: "run \<Rightarrow> string \<Rightarrow> rat \<Rightarrow> bool \<Rightarrow> RGBColor \<Rightarrow> string \<Rightarrow> run" where
  "set_run r text size' bold color name =
     r\<lparr>run_text := text, font_name := Some name, font_size := Some (Pt size'),
       font_bold := Some bold, font_color := Some color\<rparr>"

definition add_badge ::
  "slide \<Rightarrow> string \<Rightarrow> rat \<Rightarrow> rat \<Rightarrow> rat \<Rightarrow> rat \<Rightarrow> RGBColor \<Rightarrow> slide" where
  "add_badge s text left top' width height fill_color =
     (let shape0 = new_autoshape ROUNDED_RECTANGLE left top' width height;
          shape1 = shape0\<lparr>sh_fill := FillSolid None\<rparr>;
          shape2 = shape1\<lparr>sh_fill := FillSolid (Some fill_color)\<rparr>;
          shape3 = shape2\<lparr>sh_line_fill := FillBackground\<rparr>;
          tf = tf_clear (sh_paragraphs shape3);
          p = (tf ! 0)\<lparr>p_alignment := Some CENTER\<rparr>;
          p' = add_run p (set_run new_run text 18 True TEXT_DARK ''Segoe UI'')
      in append_shape s (shape3\<lparr>sh_paragraphs := tf[0 := p']\<rparr>))"

text \<open>
  The dictionaries the script receives. \<^verbatim>\<open>add_bullets\<close> reads
  \<^verbatim>\<open>sec["title"]\<close> and \<^verbatim>\<open>sec.get("subs", [])\<close>: the title is there, the
  sub-items may be absent. \<^verbatim>\<open>add_bottom_three_columns\<close> reads
  \<^verbatim>\<open>col["badge"][0]\<close>, \<^verbatim>\<open>col["badge"][1]\<close> and \<^verbatim>\<open>col["items"]\<close>.
\<close>

record sec_dict =
  title :: string
  subs :: "string list option"

record col_dict =
  badge :: "string \<times> RGBColor"
  items :: "string list"

text \<open>\<^verbatim>\<open>sec.get("subs", [])\<close>.\<close>

definition get_subs :: "sec_dict \<Rightarrow> string list" where
  "get_subs sec = (case subs sec of None \<Rightarrow> [] | Some l \<Rightarrow> l)"

text \<open>The inner loop of \<^verbatim>\<open>add_bullets\<close>: \<^verbatim>\<open>for j, s in enumerate(...)\<close>.\<close>

fun add_bullets_subs :: "para list \<Rightarrow> string list \<Rightarrow> para list" where
  "add_bullets_subs tf [] = tf"
| "add_bullets_subs tf (sub # rest) =
     (let sp = new_paragraph\<lparr>p_level := 1, p_space_after := Some (Pt 2)\<rparr>;
          sp' = add_run sp (set_run new_run sub 14 False TEXT_DARK ''Segoe UI'')
      in add_bullets_subs (add_paragraph tf sp') rest)"

text \<open>The outer loop: \<^verbatim>\<open>for i, sec in enumerate(sections)\<close>, with its index.\<close>

fun add_bullets_sections :: "nat \<Rightarrow> para list \<Rightarrow> sec_dict list \<Rightarrow> para list" where
  "add_bullets_sections i tf [] = tf"
| "add_bullets_sections i tf (sec # rest) =
     (let main_bullet = (\<lambda>p.
            add_run (p\<lparr>p_level := 0, p_space_after := Some (Pt 4)\<rparr>)
              (set_run new_run (title sec) 18 True TEXT_DARK ''Segoe UI''));
          tf1 = (if i > 0 then add_paragraph tf (main_bullet new_paragraph)
                 else tf[0 := main_bullet (tf ! 0)]);
          tf2 = add_bullets_subs tf1 (get_subs sec)
      in add_bullets_sections (Suc i) tf2 rest)"

definition add_bullets ::
  "slide \<Rightarrow> rat \<Rightarrow> rat \<Rightarrow> rat \<Rightarrow> rat \<Rightarrow> sec_dict list \<Rightarrow> slide" where
  "add_bullets s left top' width height sections =
     (let box = new_textbox left top' width height;
          tf = tf_clear (sh_paragraphs box);
          box1 = box\<lparr>sh_word_wrap := Some True\<rparr>
      in append_shape s (box1\<lparr>sh_paragraphs := add_bullets_sections 0 tf sections\<rparr>))"

text \<open>
  The bullet of \<^verbatim>\<open>f"\<bullet> {item}"\<close>: U+2022 and a space. Strings are kept as the
  bytes of the source file, which is UTF-8.
\<close>

definition bullet_prefix :: string where
  "bullet_prefix = [CHR 0xE2, CHR 0x80, CHR 0xA2, CHR '' '']"

text \<open>The loop over \<^verbatim>\<open>col["items"]\<close> in \<^verbatim>\<open>add_bottom_three_columns\<close>.\<close>

fun add_column_items :: "nat \<Rightarrow> para list \<Rightarrow> string list \<Rightarrow> para list" where
  "add_column_items j tf [] = tf"
| "add_column_items j tf (item # rest) =
     (let bullet = (\<lambda>p.
            add_run (p\<lparr>p_level := 0, p_space_after := Some (Pt 2)\<rparr>)
              (set_run new_run (bullet_prefix @ item) 16 False TEXT_DARK ''Segoe UI''));
          tf1 = (if j > 0 then add_paragraph tf (bullet new_paragraph)
                 else tf[0 := bullet (tf ! 0)])
      in add_column_items (Suc j) tf1 rest)"

text \<open>
  \<^verbatim>\<open>add_bottom_three_columns\<close> computes with its arguments, and what Python computes
  depends on their types. The arguments are whole units here, as the lengths of the
  library are and as \<^verbatim>\<open>main\<close> passes them. Then \<^verbatim>\<open>total_width - 2 * gap\<close>,
  \<^verbatim>\<open>top + Inches(0.6)\<close> and \<^verbatim>\<open>height - Inches(0.6)\<close> stay \<^verbatim>\<open>int\<close>, the division
  gives the double nearest the quotient of the two \<^verbatim>\<open>int\<close>s, and
  \<^verbatim>\<open>left + i * (col_w + gap)\<close> is three operations on floats.

  The loop \<^verbatim>\<open>for i, col in enumerate(cols)\<close>, with \<open>gap\<close> and \<open>col_w\<close> as computed
  before it:
\<close>

fun add_columns ::
  "int \<Rightarrow> rat \<Rightarrow> int \<Rightarrow> int \<Rightarrow> int \<Rightarrow> nat \<Rightarrow> slide \<Rightarrow> col_dict list \<Rightarrow> slide" where
  "add_columns gap col_w left top' height i s [] = s"
| "add_columns gap col_w left top' height i s (col # rest) =
     (let x = fl (py_float left + fl (py_float (int i) * fl (col_w + py_float gap)));
          s1 = add_badge s (fst (badge col)) x (of_int top') col_w (of_int (Inches 0.5))
                 (snd (badge col));
          box_top = top' + Inches 0.6;
          box = new_textbox x (of_int box_top) col_w (of_int (height - Inches 0.6));
          tf = tf_clear (sh_paragraphs box);
          box1 = box\<lparr>sh_word_wrap := Some True\<rparr>;
          s2 = append_shape s1 (box1\<lparr>sh_paragraphs := add_column_items 0 tf (items col)\<rparr>)
      in add_columns gap col_w left top' height (Suc i) s2 rest)"

definition add_bottom_three_columns ::
  "slide \<Rightarrow> int \<Rightarrow> int \<Rightarrow> int \<Rightarrow> int \<Rightarrow> col_dict list \<Rightarrow> slide" where
  "add_bottom_three_columns s left top' total_width height cols =
     (let gap = Inches 0.25;
          col_w = fl (of_int (total_width - 2 * gap) / 3)
      in add_columns gap col_w left top' height 0 s cols)"

definition add_divider :: "slide \<Rightarrow> rat \<Rightarrow> rat \<Rightarrow> rat \<Rightarrow> slide" where
  "add_divider s left top' width =
     (let line0 = new_autoshape RECTANGLE left top' width (of_int (Inches 0.02));
          line1 = line0\<lparr>sh_fill := FillSolid None\<rparr>;
          line2 = line1\<lparr>sh_fill := FillSolid (Some LINE_LIGHT)\<rparr>
      in append_shape s (line2\<lparr>sh_line_fill := FillBackground\<rparr>))"

section \<open>The composition\<close>

record presentation =
  slide_width :: int
  slide_height :: int
  slides :: "slide list"

text \<open>
  \<^verbatim>\<open>Presentation()\<close> opens the library's default template: 10in by 7.5in, no slide.
  \<^verbatim>\<open>prs.slides.add_slide(prs.slide_layouts[6])\<close> adds a slide on the blank layout,
  which brings no placeholder: the slide starts without shapes. The script keeps the
  slide it gets back and draws on it; \<open>main_prs\<close> puts the slide into the presentation
  as the drawing leaves it.
\<close>

definition Presentation :: presentation where
  "Presentation = \<lparr>slide_width = 9144000, slide_height = 6858000, slides = []\<rparr>"

definition blank_slide :: slide where
  "blank_slide = \<lparr>shapes = []\<rparr>"

definition add_slide :: "presentation \<Rightarrow> slide \<Rightarrow> presentation" where
  "add_slide prs s = prs\<lparr>slides := slides prs @ [s]\<rparr>"

text \<open>The literals of \<^verbatim>\<open>main\<close>; a character outside ASCII is written as its bytes.\<close>

definition left_sections :: "sec_dict list" where
  "left_sections =
     [\<lparr>title = ''High Recall Focus '' @ [CHR 0xE2, CHR 0x9C, CHR 0x85],
       subs = Some [''Critical for field deployment to reduce disease spread'']\<rparr>,
      \<lparr>title = ''Modular Architecture '' @ [CHR 0xF0, CHR 0x9F, CHR 0x94, CHR 0x84],
       subs = Some [''Autoencoder and classifier can work independently or together'']\<rparr>,
      \<lparr>title = ''Ease of Data Acquisition '' @ [CHR 0xF0, CHR 0x9F, CHR 0x8C, CHR 0xB1],
       subs = Some [''Autoencoder requires few or no diseased images'',
                    ''Classifier trained only on images autoencoder fails to detect'']\<rparr>]"

definition right_sections :: "sec_dict list" where
  "right_sections =
     [\<lparr>title = ''Autoencoder Limitations '' @
                 [CHR 0xE2, CHR 0x9A, CHR 0xA0, CHR 0xEF, CHR 0xB8, CHR 0x8F],
       subs = Some [''Weak decoder reduces standalone performance'',
                    ''Normalization may worsen results'']\<rparr>,
      \<lparr>title = ''Improvement Opportunities '' @ [CHR 0xF0, CHR 0x9F, CHR 0x92, CHR 0xA1],
       subs = Some [''Enhanced decoder (skip connections + attention mechanisms)'',
                    ''Robust loss functions and tailored training strategies'',
                    ''Ensemble with classifier for sparse proprietary data'']\<rparr>]"

definition bottom_cols :: "col_dict list" where
  "bottom_cols =
     [\<lparr>badge = (''Dataset Observations '' @ [CHR 0xF0, CHR 0x9F, CHR 0x93, CHR 0xB8],
                PASTEL_BLUE),
       items = [''Classifier handles varied conditions (day/night)'',
                ''More diseased samples '' @ [CHR 0xE2, CHR 0x86, CHR 0x92] @
                '' better performance'']\<rparr>,
      \<lparr>badge = (''Model Choice '' @
                 [CHR 0xF0, CHR 0x9F, CHR 0x8F, CHR 0x8E, CHR 0xEF, CHR 0xB8, CHR 0x8F],
                PASTEL_GREEN),
       items = [''Lightweight MobileViT2 outperforms larger models like EfficientNet'']\<rparr>,
      \<lparr>badge = (''Takeaway '' @ [CHR 0xE2, CHR 0x9C, CHR 0x94, CHR 0xEF, CHR 0xB8, CHR 0x8F],
                PASTEL_BLUE),
       items = [''Lightweight anomaly detector + classifier is optimal for deployment'',
                ''Reduces data collection effort and maintains high recall'']\<rparr>]"

text \<open>The presentation \<^verbatim>\<open>main\<close> holds when it reaches \<^verbatim>\<open>prs.save\<close>.\<close>

definition main_prs :: presentation where
  "main_prs =
     (let prs0 = Presentation;
          prs1 = prs0\<lparr>slide_width := Inches 13.333\<rparr>;
          prs = prs1\<lparr>slide_height := Inches 7.5\<rparr>;
          slide0 = blank_slide;
          margin = Inches 0.5;
          content_top = Inches 0.9;
          column_height = Inches 4.6;
          col_gap = Inches 0.4;
          col_width = fl (of_int (slide_width prs - 2 * margin - col_gap) / 2);
          left_x = margin;
          right_x = fl (fl (py_float margin + col_width) + py_float col_gap);
          slide1 = add_badge slide0 ''Advantages / Strengths'' (of_int left_x)
                     (of_int (Inches 0.3)) col_width (of_int (Inches 0.5)) PASTEL_GREEN;
          slide2 = add_bullets slide1 (of_int left_x) (of_int content_top) col_width
                     (of_int column_height) left_sections;
          slide3 = add_badge slide2 ''Limitations / Recommendations'' right_x
                     (of_int (Inches 0.3)) col_width (of_int (Inches 0.5)) PASTEL_BLUE;
          slide4 = add_bullets slide3 right_x (of_int content_top) col_width
                     (of_int column_height) right_sections;
          divider_y = content_top + column_height + Inches 0.2;
          slide5 = add_divider slide4 (of_int margin) (of_int divider_y)
                     (of_int (slide_width prs - 2 * margin));
          bottom_top = divider_y + Inches 0.2;
          bottom_height = slide_height prs - bottom_top - Inches 0.4;
          slide6 = add_bottom_three_columns slide5 margin bottom_top
                     (slide_width prs - 2 * margin) bottom_height bottom_cols
      in add_slide prs slide6)"

text \<open>
  The end of \<^verbatim>\<open>main\<close> and the process around it. The world is what a run can read
  and write: the files of the working directory (a document per name), the lines
  printed, the arguments and the environment. \<^verbatim>\<open>prs.save\<close> belongs to the library:
  a \<open>saver\<close> returns the exception it raises, if any, and the files it leaves.
\<close>

datatype py_exception = Raised string

type_synonym files = "string \<rightharpoonup> presentation"

type_synonym saver = "presentation \<Rightarrow> string \<Rightarrow> files \<Rightarrow> py_exception option \<times> files"

record world =
  files :: files
  stdout :: "string list"
  argv :: "string list"
  environ :: "string \<rightharpoonup> string"

definition out_name :: string where
  "out_name = ''MobileViT2-Anomaly-Detector-Key-Insights.pptx''"

definition main :: "saver \<Rightarrow> world \<Rightarrow> py_exception option \<times> world" where
  "main save w =
     (let prs = main_prs;
          (raised, fs) = save prs out_name (files w);
          w1 = w\<lparr>files := fs\<rparr>
      in case raised of
           Some e \<Rightarrow> (Some e, w1)
         | None \<Rightarrow> (None, w1\<lparr>stdout := stdout w1 @ [''Saved: '' @ out_name]\<rparr>))"

text \<open>
  \<^verbatim>\<open>if __name__ == "__main__": main()\<close>: the interpreter exits with status 0 when
  \<^verbatim>\<open>main\<close> returns and with status 1 when an exception leaves it.
\<close>

definition run_script :: "saver \<Rightarrow> world \<Rightarrow> nat \<times> world" where
  "run_script save w =
     (case main save w of (None, w') \<Rightarrow> (0, w') | (Some e, w') \<Rightarrow> (1, w'))"

text \<open>A save that succeeds stores the document under the name, over any older file.\<close>

definition save_ok :: saver where
  "save_ok prs name fs = (None, fs(name \<mapsto> prs))"

section \<open>What the claims observe\<close>

text \<open>The shapes a call has added to a slide that held those of \<open>s\<close>.\<close>

definition added :: "slide \<Rightarrow> slide \<Rightarrow> shape list" where
  "added s s' = drop (length (shapes s)) (shapes s')"

text \<open>A run and a bulleted paragraph as the script styles them.\<close>

definition styled_run :: "string \<Rightarrow> rat \<Rightarrow> bool \<Rightarrow> run" where
  "styled_run text pts bold =
     \<lparr>run_text = text, font_name = Some ''Segoe UI'', font_size = Some (Pt pts),
      font_bold = Some bold, font_color = Some TEXT_DARK\<rparr>"

definition bullet_paragraph :: "nat \<Rightarrow> rat \<Rightarrow> run \<Rightarrow> para" where
  "bullet_paragraph lvl after r =
     \<lparr>p_level = lvl, p_space_after = Some (Pt after), p_alignment = None, p_runs = [r]\<rparr>"

text \<open>The runs of a shape's text, in order, each with the level of its paragraph.\<close>

definition level_runs :: "shape \<Rightarrow> (nat \<times> string) list" where
  "level_runs sh =
     concat (map (\<lambda>p. map (\<lambda>r. (p_level p, run_text r)) (p_runs p)) (sh_paragraphs sh))"

text \<open>The paragraphs an outline shows for one section: its title, then its sub-items.\<close>

definition outline_paragraphs :: "sec_dict \<Rightarrow> para list" where
  "outline_paragraphs sec =
     bullet_paragraph 0 4 (styled_run (title sec) 18 True) #
     map (\<lambda>sub. bullet_paragraph 1 2 (styled_run sub 14 False)) (get_subs sec)"

text \<open>The paragraphs of a bottom column: a bulleted line per item.\<close>

definition column_paragraphs :: "string list \<Rightarrow> para list" where
  "column_paragraphs l =
     (if l = [] then [new_paragraph]
      else map (\<lambda>item. bullet_paragraph 0 2 (styled_run (bullet_prefix @ item) 16 False)) l)"

text \<open>A badge and a text box, as finished shapes at a place in whole units.\<close>

definition badge_shape ::
  "string \<Rightarrow> int \<Rightarrow> int \<Rightarrow> int \<Rightarrow> int \<Rightarrow> RGBColor \<Rightarrow> shape" where
  "badge_shape text left top' width height fill_color =
     \<lparr>sh_kind = AutoShape ROUNDED_RECTANGLE,
      sh_left = left, sh_top = top', sh_width = width, sh_height = height,
      sh_fill = FillSolid (Some fill_color), sh_line_fill = FillBackground,
      sh_word_wrap = None,
      sh_paragraphs =
        [\<lparr>p_level = 0, p_space_after = None, p_alignment = Some CENTER,
          p_runs = [styled_run text 18 True]\<rparr>]\<rparr>"

definition text_box :: "int \<Rightarrow> int \<Rightarrow> int \<Rightarrow> int \<Rightarrow> para list \<Rightarrow> shape" where
  "text_box left top' width height ps =
     \<lparr>sh_kind = TextBox,
      sh_left = left, sh_top = top', sh_width = width, sh_height = height,
      sh_fill = FillBackground, sh_line_fill = FillUnset,
      sh_word_wrap = Some True, sh_paragraphs = ps\<rparr>"

text \<open>
  The two shapes of the bottom column with index \<open>i\<close>, for a gap and a column width
  (a float): the badge in the top strip, the text box 0.6in below the top, both where
  the script's three float operations put them, cut to whole units.
\<close>

definition column_shapes ::
  "int \<Rightarrow> rat \<Rightarrow> int \<Rightarrow> int \<Rightarrow> int \<Rightarrow> nat \<times> col_dict \<Rightarrow> shape list" where
  "column_shapes gap col_w left top' height ic =
     (let x = py_int (fl (py_float left +
                fl (py_float (int (fst ic)) * fl (col_w + py_float gap))))
      in [badge_shape (fst (badge (snd ic))) x top' (py_int col_w) (Inches 0.5)
            (snd (badge (snd ic))),
          text_box x (top' + Inches 0.6) (py_int col_w) (height - Inches 0.6)
            (column_paragraphs (items (snd ic)))])"

text \<open>The horizontal extent of a shape, and the badges and text boxes among shapes.\<close>

definition extent :: "shape \<Rightarrow> int \<times> int" where
  "extent sh = (sh_left sh, sh_width sh)"

definition badges :: "shape list \<Rightarrow> shape list" where
  "badges shs = filter (\<lambda>sh. sh_kind sh = AutoShape ROUNDED_RECTANGLE) shs"

definition text_boxes :: "shape list \<Rightarrow> shape list" where
  "text_boxes shs = filter (\<lambda>sh. sh_kind sh = TextBox) shs"


text \<open>
  What the spec asks of sibling columns, given from left to right as (x, width), up to
  a slack in whole units: equal widths, each positive; the widths and the gaps between
  add up to the parent's width less at most the slack; each column starts at least a gap
  after the one before ends; the first starts where the parent starts and the last ends
  at most the slack before the parent ends. With slack 0 the split is even.
\<close>

fun in_order :: "int \<Rightarrow> (int \<times> int) list \<Rightarrow> bool" where
  "in_order gap (c # d # rest) = (fst c + snd c + gap \<le> fst d \<and> in_order gap (d # rest))"
| "in_order gap cs = True"

definition splits_nearly :: "int \<Rightarrow> int \<Rightarrow> int \<Rightarrow> int \<Rightarrow> (int \<times> int) list \<Rightarrow> bool" where
  "splits_nearly left w gap slack cs \<longleftrightarrow>
     cs \<noteq> [] \<and>
     list_all (\<lambda>c. snd c = snd (hd cs) \<and> 0 < snd c) cs \<and>
     w - slack \<le> sum_list (map snd cs) + (int (length cs) - 1) * gap \<and>
     sum_list (map snd cs) + (int (length cs) - 1) * gap \<le> w \<and>
     in_order gap cs \<and>
     fst (hd cs) = left \<and>
     left + w - slack \<le> fst (last cs) + snd (last cs) \<and>
     fst (last cs) + snd (last cs) \<le> left + w"

definition splits_evenly :: "int \<Rightarrow> int \<Rightarrow> int \<Rightarrow> (int \<times> int) list \<Rightarrow> bool" where
  "splits_evenly left w gap cs \<longleftrightarrow> splits_nearly left w gap 0 cs"

text \<open>The slide of the presentation \<^verbatim>\<open>main\<close> builds.\<close>

definition main_slide :: slide where
  "main_slide = hd (slides main_prs)"

text \<open>Kind and place of a shape.\<close>

definition geometry :: "shape \<Rightarrow> shape_kind \<times> int \<times> int \<times> int \<times> int" where
  "geometry sh = (sh_kind sh, sh_left sh, sh_top sh, sh_width sh, sh_height sh)"

text \<open>The autoshapes among shapes: all that is not a text box.\<close>

definition autoshapes :: "shape list \<Rightarrow> shape list" where
  "autoshapes shs = filter (\<lambda>sh. case sh_kind sh of AutoShape m \<Rightarrow> True | TextBox \<Rightarrow> False) shs"

text \<open>
  What a slide shows: per shape its kind, its place and size, its fill, and its
  paragraphs as level and runs, each run with its text, font, size, weight and colour.
\<close>

definition run_content :: "run \<Rightarrow> string \<times> string option \<times> length option \<times> bool option \<times> RGBColor option" where
  "run_content r = (run_text r, font_name r, font_size r, font_bold r, font_color r)"

definition shape_content ::
  "shape \<Rightarrow> (shape_kind \<times> int \<times> int \<times> int \<times> int) \<times> fill_format \<times>
     (nat \<times> (string \<times> string option \<times> length option \<times> bool option \<times> RGBColor option) list) list" where
  "shape_content sh =
     (geometry sh, sh_fill sh,
      map (\<lambda>p. (p_level p, map run_content (p_runs p))) (sh_paragraphs sh))"

text \<open>
  The numbers a double holds exactly: a significand of at most 53 bits times a power of
  two.
\<close>

definition representable :: "rat \<Rightarrow> bool" where
  "representable x \<longleftrightarrow> (\<exists>m e. x = of_int m * 2 powi e \<and> \<bar>m\<bar> \<le> 2 ^ 53)"

section \<open>Rounding to a double\<close>

text \<open>
  The rounding stays within half a unit in the last place, is exact on every number a
  double holds, and returns such a number. For the sizes a slide can have, this fixes
  the whole unit that \<^verbatim>\<open>%d\<close> cuts a third of an \<^verbatim>\<open>int\<close> to.
\<close>

lemma round_half_even_error: "\<bar>of_int (round_half_even y) - y\<bar> \<le> 1 / 2"
  unfolding round_half_even_def Let_def by (auto simp: abs_if) linarith+

lemma round_half_even_int [simp]: "round_half_even (of_int k) = k"
  by (simp add: round_half_even_def)

lemma bitlen_powi_bounds:
  assumes "0 < (a::int)"
  shows "(2::rat) powi (bitlen a - 1) \<le> of_int a" "of_int a < (2::rat) powi bitlen a"
proof -
  from assms have b1: "1 \<le> bitlen a"
    by (auto simp: bitlen_alt_def)
  from bitlen_bounds [OF assms] have lo: "2 ^ nat (bitlen a - 1) \<le> a" and hi: "a < 2 ^ nat (bitlen a)"
    by auto
  from lo have "(of_int (2 ^ nat (bitlen a - 1)) :: rat) \<le> of_int a"
    by (simp only: of_int_le_iff)
  then show "(2::rat) powi (bitlen a - 1) \<le> of_int a"
    using b1 by (simp add: power_int_nonneg_exp)
  from hi have "(of_int a :: rat) < of_int (2 ^ nat (bitlen a))"
    by (simp only: of_int_less_iff)
  then show "of_int a < (2::rat) powi bitlen a"
    using b1 by (simp add: power_int_nonneg_exp)
qed

lemma expo_bounds:
  assumes "x \<noteq> 0"
  shows "2 powi expo x \<le> \<bar>x\<bar>" "\<bar>x\<bar> < 2 powi (expo x + 1)"
proof -
  obtain a b where q: "quotient_of \<bar>x\<bar> = (a, b)"
    by (cases "quotient_of \<bar>x\<bar>")
  then have bpos: "0 < b" and xab: "\<bar>x\<bar> = of_int a / of_int b"
    by (simp_all add: quotient_of_denom_pos quotient_of_div)
  from assms have "0 < \<bar>x\<bar>" by simp
  with xab bpos have apos: "0 < a"
    by (simp add: zero_less_divide_iff)
  define d where "d = bitlen a - bitlen b"
  have e: "expo x = (if 2 powi d \<le> \<bar>x\<bar> then d else d - 1)"
    by (simp add: expo_def q d_def Let_def)
  have bq: "0 < (of_int b :: rat)" using bpos by simp
  have lo: "(2::rat) powi (d - 1) < \<bar>x\<bar>"
  proof -
    have "(2::rat) powi (d - 1) = 2 powi (bitlen a - 1) / 2 powi bitlen b"
      by (simp add: d_def power_int_diff)
    also have "\<dots> \<le> of_int a / 2 powi bitlen b"
      using bitlen_powi_bounds(1) [OF apos] by (simp add: divide_right_mono)
    also have "\<dots> < of_int a / of_int b"
      using bitlen_powi_bounds(2) [OF bpos] apos bq by (simp add: divide_strict_left_mono)
    finally show ?thesis by (simp add: xab)
  qed
  have hi: "\<bar>x\<bar> < (2::rat) powi (d + 1)"
  proof -
    have "\<bar>x\<bar> = of_int a / of_int b" by (rule xab)
    also have "\<dots> < 2 powi bitlen a / of_int b"
      using bitlen_powi_bounds(2) [OF apos] bq by (simp add: divide_strict_right_mono)
    also have "\<dots> \<le> 2 powi bitlen a / 2 powi (bitlen b - 1)"
      using bitlen_powi_bounds(1) [OF bpos] bq
      by (intro divide_left_mono) (simp_all add: zero_less_power_int)
    also have "\<dots> = 2 powi (d + 1)"
      by (simp add: d_def power_int_diff power_int_add)
    finally show ?thesis .
  qed
  show "2 powi expo x \<le> \<bar>x\<bar>"
    using lo by (simp add: e)
  show "\<bar>x\<bar> < 2 powi (expo x + 1)"
    using hi by (auto simp: e)
qed

lemma powi2_less_iff: "(2::rat) powi a < 2 powi b \<longleftrightarrow> a < b"
proof
  assume lt: "(2::rat) powi a < 2 powi b"
  show "a < b"
  proof (rule ccontr)
    assume "\<not> a < b"
    then have "b \<le> a" by simp
    then have "(2::rat) powi b \<le> 2 powi a"
      by (intro power_int_increasing) simp_all
    with lt show False by simp
  qed
next
  assume "a < b"
  then show "(2::rat) powi a < 2 powi b"
    by (intro power_int_strict_increasing) simp_all
qed

lemma powi2_le_iff: "(2::rat) powi a \<le> 2 powi b \<longleftrightarrow> a \<le> b"
  using powi2_less_iff [of b a] by (simp add: not_less [symmetric])

lemma powi2_pos: "0 < (2::rat) powi a"
  by (simp add: zero_less_power_int)

lemma fl_zero [simp]: "fl 0 = 0"
  by (simp add: fl_def)

lemma fl_unfold:
  "x \<noteq> 0 \<Longrightarrow> fl x = of_int (round_half_even (x / 2 powi (expo x - 52))) * 2 powi (expo x - 52)"
  by (simp add: fl_def Let_def)

lemma fl_error_ulp:
  assumes "x \<noteq> 0"
  shows "\<bar>fl x - x\<bar> \<le> 2 powi (expo x - 53)"
proof -
  define u :: rat where "u = 2 powi (expo x - 52)"
  have upos: "0 < u" by (simp add: u_def powi2_pos)
  define r :: rat where "r = of_int (round_half_even (x / u))"
  have "fl x = r * u"
    unfolding r_def u_def by (rule fl_unfold [OF assms])
  moreover have "x = x / u * u" using upos by simp
  ultimately have "fl x - x = (r - x / u) * u"
    by (simp add: algebra_simps)
  then have "\<bar>fl x - x\<bar> = \<bar>r - x / u\<bar> * u"
    using upos by (simp add: abs_mult)
  also have "\<dots> \<le> 1 / 2 * u"
    using round_half_even_error [of "x / u"] upos
    unfolding r_def by (intro mult_right_mono) simp_all
  also have "\<dots> = 2 powi (expo x - 53)"
  proof -
    have "(2::rat) powi (expo x - 52) = 2 powi (expo x - 53 + 1)" by simp
    also have "\<dots> = 2 powi (expo x - 53) * 2"
      by (subst power_int_add) simp_all
    finally show ?thesis by (simp add: u_def)
  qed
  finally show ?thesis .
qed

lemma fl_error_rel: "\<bar>fl x - x\<bar> \<le> \<bar>x\<bar> / 2 ^ 53"
proof (cases "x = 0")
  case True
  then show ?thesis by simp
next
  case False
  have "\<bar>fl x - x\<bar> \<le> 2 powi (expo x - 53)"
    by (rule fl_error_ulp [OF False])
  also have "\<dots> = 2 powi expo x / 2 ^ 53"
    by (subst power_int_diff) simp_all
  also have "\<dots> \<le> \<bar>x\<bar> / 2 ^ 53"
    using expo_bounds(1) [OF False] by (intro divide_right_mono) simp_all
  finally show ?thesis .
qed

lemma expo_less:
  assumes "x \<noteq> 0" and "\<bar>x\<bar> < 2 powi k"
  shows "expo x < k"
proof -
  from expo_bounds(1) [OF assms(1)] assms(2) have "(2::rat) powi expo x < 2 powi k"
    by simp
  then show ?thesis by (simp only: powi2_less_iff)
qed

lemma expo_powi:
  assumes "\<bar>x\<bar> = 2 powi k"
  shows "expo x = k"
proof -
  from assms have nz: "x \<noteq> 0"
    using powi2_pos [of k] by auto
  from expo_bounds(1) [OF nz] have "(2::rat) powi expo x \<le> 2 powi k"
    by (simp add: assms)
  then have le: "expo x \<le> k" by (simp only: powi2_le_iff)
  from expo_bounds(2) [OF nz] have "(2::rat) powi k < 2 powi (expo x + 1)"
    by (simp add: assms)
  then have "k < expo x + 1" by (simp only: powi2_less_iff)
  with le show ?thesis by simp
qed

lemma fl_exact_aux:
  assumes "x \<noteq> 0" and "x / 2 powi (expo x - 52) = of_int j"
  shows "fl x = x"
proof -
  have "fl x = of_int j * 2 powi (expo x - 52)"
    by (simp add: fl_unfold [OF assms(1)] assms(2))
  also have "\<dots> = x / 2 powi (expo x - 52) * 2 powi (expo x - 52)"
    by (simp only: assms(2))
  also have "\<dots> = x"
    using powi2_pos [of "expo x - 52"] by simp
  finally show ?thesis .
qed

lemma fl_exact:
  assumes "representable x"
  shows "fl x = x"
proof (cases "x = 0")
  case True
  then show ?thesis by simp
next
  case nz: False
  from assms obtain m e where x: "x = of_int m * 2 powi e" and m: "\<bar>m\<bar> \<le> 2 ^ 53"
    unfolding representable_def by blast
  show ?thesis
  proof (cases "\<bar>m\<bar> = 2 ^ 53")
    case True
    then have "\<bar>of_int m :: rat\<bar> = 2 ^ 53"
      by (metis of_int_abs of_int_numeral of_int_power)
    then have ax: "\<bar>x\<bar> = 2 powi (e + 53)"
      by (simp add: x abs_mult power_int_add powi2_pos abs_of_pos)
    have ex: "expo x = e + 53"
      by (rule expo_powi [OF ax])
    have "expo x - 52 = e + 1" by (simp add: ex)
    then have "x / 2 powi (expo x - 52) = x / 2 powi (e + 1)" by (simp only:)
    also have "\<dots> = of_int m * (2 powi e / 2 powi (e + 1))"
      by (simp add: x)
    also have "(2::rat) powi e / 2 powi (e + 1) = 1 / 2"
      by (subst power_int_add) (simp_all add: powi2_pos)
    also have "of_int m * (1 / 2 :: rat) = of_int (m div 2)"
    proof -
      from True have "even m" by (metis abs_numeral dvd_abs_iff even_numeral even_power zero_less_numeral)
      then show ?thesis by (auto elim!: evenE)
    qed
    finally show ?thesis by (rule fl_exact_aux [OF nz])
  next
    case False
    with m have "\<bar>m\<bar> < 2 ^ 53" by simp
    then have "\<bar>of_int m :: rat\<bar> < 2 ^ 53"
      by (metis of_int_abs of_int_less_numeral_power_cancel_iff)
    then have "\<bar>x\<bar> < 2 ^ 53 * 2 powi e"
      by (simp add: x abs_mult powi2_pos abs_of_pos)
    also have "(2::rat) ^ 53 * 2 powi e = 2 powi (e + 53)"
      by (subst power_int_add) simp_all
    finally have "expo x < e + 53"
      by (rule expo_less [OF nz])
    then have "0 \<le> e - expo x + 52" by simp
    then obtain n where n: "e - expo x + 52 = int n"
      using nonneg_int_cases by blast
    have "x / 2 powi (expo x - 52) = of_int m * (2 powi e / 2 powi (expo x - 52))"
      by (simp add: x)
    also have "(2::rat) powi e / 2 powi (expo x - 52) = 2 powi (e - (expo x - 52))"
      by (subst power_int_diff) simp_all
    also have "e - (expo x - 52) = int n" using n by simp
    also have "of_int m * (2::rat) powi int n = of_int (m * 2 ^ n)"
      by simp
    finally show ?thesis by (rule fl_exact_aux [OF nz])
  qed
qed

lemma representable_fl: "representable (fl x)"
proof (cases "x = 0")
  case True
  have "(0::rat) = of_int 0 * 2 powi 0 \<and> \<bar>0::int\<bar> \<le> 2 ^ 53" by simp
  then show ?thesis unfolding True fl_zero representable_def by blast
next
  case nz: False
  define u :: rat where "u = 2 powi (expo x - 52)"
  have upos: "0 < u" by (simp add: u_def powi2_pos)
  define r where "r = round_half_even (x / u)"
  have flx: "fl x = of_int r * 2 powi (expo x - 52)"
    unfolding r_def u_def by (rule fl_unfold [OF nz])
  have "expo x + 1 = 53 + (expo x - 52)" by simp
  then have "(2::rat) powi (expo x + 1) = 2 powi (53 + (expo x - 52))" by (simp only:)
  also have "\<dots> = 2 ^ 53 * u"
    unfolding u_def by (subst power_int_add) simp_all
  finally have "\<bar>x\<bar> < 2 ^ 53 * u"
    using expo_bounds(2) [OF nz] by simp
  then have "\<bar>x\<bar> / u < 2 ^ 53"
    using upos by (simp add: pos_divide_less_eq)
  then have "\<bar>x / u\<bar> < 2 ^ 53"
    using upos by (simp add: abs_divide abs_of_pos)
  moreover define y where "y = x / u"
  ultimately have xu: "\<bar>y\<bar> < 2 ^ 53" by simp
  have err: "\<bar>of_int r - y\<bar> \<le> 1 / 2"
    unfolding r_def y_def by (rule round_half_even_error)
  from xu err have "\<bar>of_int r :: rat\<bar> < 2 ^ 53 + 1" by linarith
  also have "(2::rat) ^ 53 + 1 = of_int (2 ^ 53 + 1)" by simp
  finally have "(of_int \<bar>r\<bar> :: rat) < of_int (2 ^ 53 + 1)" by simp
  then have "\<bar>r\<bar> < 2 ^ 53 + 1" by (simp only: of_int_less_iff)
  then have "\<bar>r\<bar> \<le> 2 ^ 53" by simp
  with flx show ?thesis unfolding representable_def by blast
qed

lemma representable_int: "\<bar>i\<bar> \<le> 2 ^ 53 \<Longrightarrow> representable (of_int i)"
  unfolding representable_def by (rule exI [of _ i], rule exI [of _ 0]) simp

lemma representable_double:
  assumes "representable x"
  shows "representable (2 * x)"
proof -
  from assms obtain m e where "x = of_int m * 2 powi e" and m: "\<bar>m\<bar> \<le> 2 ^ 53"
    unfolding representable_def by blast
  then have "2 * x = of_int m * (2 powi e * 2)" by simp
  also have "(2::rat) powi e * 2 = 2 powi (e + 1)"
    by (subst power_int_add) simp_all
  finally show ?thesis using m unfolding representable_def by blast
qed

lemma fl_int: "\<bar>i\<bar> \<le> 2 ^ 53 \<Longrightarrow> fl (of_int i) = of_int i"
  by (rule fl_exact) (rule representable_int)

lemma fl_fl: "fl (fl x) = fl x"
  by (rule fl_exact) (rule representable_fl)

lemma fl_double_fl: "fl (2 * fl x) = 2 * fl x"
  by (rule fl_exact) (rule representable_double, rule representable_fl)

lemma py_int_between:
  assumes "of_int n < x" and "x < of_int n + 1"
  shows "py_int x = (if 0 \<le> n then n else n + 1)"
proof -
  have f: "\<lfloor>x\<rfloor> = n" using assms by (intro floor_unique) simp_all
  have c: "\<lceil>x\<rceil> = n + 1" using assms by (intro ceiling_unique) simp_all
  show ?thesis
  proof (cases "0 \<le> n")
    case True
    then have "(0::rat) \<le> of_int n" by simp
    with assms(1) have "0 \<le> x" by simp
    with True f show ?thesis by (simp add: py_int_def)
  next
    case False
    then have "n + 1 \<le> 0" by simp
    then have "(of_int (n + 1) :: rat) \<le> 0" by (simp only: of_int_le_0_iff)
    with assms(2) have "x < 0" by simp
    with False c show ?thesis by (simp add: py_int_def)
  qed
qed

lemma py_int_third:
  assumes "\<bar>x - of_int k / 3\<bar> < 1 / 3" and "3 dvd k \<Longrightarrow> x = of_int k / 3"
  shows "py_int x = py_int (of_int k / 3)"
proof (cases "3 dvd k")
  case True
  then have "x = of_int k / 3" by (rule assms(2))
  then show ?thesis by (simp only:)
next
  case False
  define n where "n = k div 3"
  from False have "k mod 3 = 1 \<or> k mod 3 = 2" by presburger
  moreover have "k = 3 * n + k mod 3" by (simp add: n_def)
  ultimately have k: "k = 3 * n + 1 \<or> k = 3 * n + 2" by presburger
  then have "(of_int k :: rat) = 3 * of_int n + 1 \<or> (of_int k :: rat) = 3 * of_int n + 2"
    by auto
  then have y: "of_int n + 1 / 3 \<le> (of_int k / 3 :: rat)" "(of_int k / 3 :: rat) \<le> of_int n + 2 / 3"
    by auto
  from y assms(1) have x: "of_int n < x" "x < of_int n + 1" by linarith+
  from y have y': "of_int n < (of_int k / 3 :: rat)" "(of_int k / 3 :: rat) < of_int n + 1"
    by linarith+
  show ?thesis
    by (simp only: py_int_between [OF x] py_int_between [OF y'])
qed

lemma fl_error_abs:
  assumes "\<bar>x\<bar> \<le> 2 ^ 44"
  shows "\<bar>fl x - x\<bar> \<le> 1 / 512"
proof -
  have "\<bar>fl x - x\<bar> \<le> \<bar>x\<bar> / 2 ^ 53" by (rule fl_error_rel)
  also have "\<dots> \<le> 2 ^ 44 / 2 ^ 53" using assms by (intro divide_right_mono) simp_all
  also have "\<dots> = (1 / 512 :: rat)" by simp
  finally show ?thesis .
qed

lemma py_float_small: "\<bar>i\<bar> \<le> 2 ^ 53 \<Longrightarrow> py_float i = of_int i"
  by (simp add: py_float_def fl_int)

lemma of_int_abs_le:
  assumes "\<bar>i\<bar> \<le> 2 ^ n"
  shows "\<bar>of_int i :: rat\<bar> \<le> 2 ^ n"
proof -
  from assms have "(of_int \<bar>i\<bar> :: rat) \<le> of_int (2 ^ n)" by (simp only: of_int_le_iff)
  then show ?thesis by simp
qed

lemma third_facts:
  assumes "\<bar>m\<bar> \<le> 2 ^ 41"
  shows "\<bar>fl (of_int m / 3) - of_int m / 3\<bar> \<le> 1 / 512"
    and "\<bar>of_int m / 3 :: rat\<bar> \<le> 2 ^ 41"
    and "3 dvd m \<Longrightarrow> fl (of_int m / 3) = of_int (m div 3)"
proof -
  have m: "\<bar>of_int m :: rat\<bar> \<le> 2 ^ 41" by (rule of_int_abs_le [OF assms])
  then show b: "\<bar>of_int m / 3 :: rat\<bar> \<le> 2 ^ 41" by simp
  then have "\<bar>of_int m / 3 :: rat\<bar> \<le> 2 ^ 44" by simp
  then show "\<bar>fl (of_int m / 3) - of_int m / 3\<bar> \<le> 1 / 512" by (rule fl_error_abs)
  show "fl (of_int m / 3) = of_int (m div 3)" if "3 dvd m"
  proof -
    from that obtain k where k: "m = 3 * k" by (auto elim: dvdE)
    with assms have "\<bar>k\<bar> \<le> 2 ^ 53" by simp
    then have "fl (of_int k) = of_int k" by (rule fl_int)
    then show ?thesis by (simp add: k)
  qed
qed

lemma col_w_trunc:
  assumes "\<bar>m\<bar> \<le> 2 ^ 41"
  shows "py_int (fl (of_int m / 3)) = py_int (of_int m / 3)"
proof (rule py_int_third)
  from third_facts(1) [OF assms] show "\<bar>fl (of_int m / 3) - of_int m / 3\<bar> < 1 / 3" by simp
  show "fl (of_int m / 3) = of_int m / 3" if "3 dvd m"
    using third_facts(3) [OF assms that] that by (auto elim: dvdE)
qed

lemma col_x_trunc:
  assumes l: "\<bar>l\<bar> \<le> 2 ^ 40" and m: "\<bar>m\<bar> \<le> 2 ^ 41" and g: "\<bar>g\<bar> \<le> 2 ^ 40"
    and i: "i = 1 \<or> i = 2"
  shows "py_int (fl (py_float l + fl (py_float i * fl (fl (of_int m / 3) + py_float g)))) =
         py_int (of_int (3 * l + i * (m + 3 * g)) / 3)"
proof -
  define cw where "cw = fl (of_int m / 3)"
  define c where "c = fl (cw + of_int g)"
  define x where "x = fl (of_int l + of_int i * c)"
  define q :: rat where "q = of_int m / 3"
  have lq: "\<bar>of_int l :: rat\<bar> \<le> 2 ^ 40" by (rule of_int_abs_le [OF l])
  have gq: "\<bar>of_int g :: rat\<bar> \<le> 2 ^ 40" by (rule of_int_abs_le [OF g])
  have iq: "(of_int i :: rat) = 1 \<or> (of_int i :: rat) = 2" using i by auto
  have e1: "\<bar>cw - q\<bar> \<le> 1 / 512" unfolding cw_def q_def by (rule third_facts(1) [OF m])
  have qb: "\<bar>q\<bar> \<le> 2 ^ 41" unfolding q_def by (rule third_facts(2) [OF m])
  from e1 qb gq have "\<bar>cw + of_int g\<bar> \<le> 2 ^ 44" unfolding abs_le_iff by auto
  then have e2: "\<bar>c - (cw + of_int g)\<bar> \<le> 1 / 512" unfolding c_def by (rule fl_error_abs)
  from e1 e2 qb gq have cb: "\<bar>c\<bar> \<le> 2 ^ 42" unfolding abs_le_iff by auto
  have "\<bar>of_int l + of_int i * c\<bar> \<le> 2 ^ 44"
    using iq lq cb unfolding abs_le_iff by auto
  then have e3: "\<bar>x - (of_int l + of_int i * c)\<bar> \<le> 1 / 512" unfolding x_def by (rule fl_error_abs)
  have pl: "py_float l = of_int l" using l by (intro py_float_small) simp
  have pg: "py_float g = of_int g" using g by (intro py_float_small) simp
  have pi: "py_float i = of_int i" using i by (intro py_float_small) auto
  have t: "fl (of_int i * c) = of_int i * c"
    using iq by (elim disjE) (simp_all add: c_def fl_fl fl_double_fl)
  have lhs: "fl (py_float l + fl (py_float i * fl (fl (of_int m / 3) + py_float g))) = x"
    by (simp only: pl pg pi x_def c_def [symmetric] cw_def [symmetric] t)
  have y: "(of_int (3 * l + i * (m + 3 * g)) / 3 :: rat) = of_int l + of_int i * (q + of_int g)"
    by (simp add: q_def field_simps)
  have err: "\<bar>x - (of_int l + of_int i * (q + of_int g))\<bar> < 1 / 3"
    using iq e1 e2 e3 unfolding abs_le_iff abs_less_iff by auto
  have exact: "x = of_int l + of_int i * (q + of_int g)" if "3 dvd (3 * l + i * (m + 3 * g))"
  proof -
    from that i have "3 dvd m" by (elim disjE) (simp, presburger)+
    then obtain k where k: "m = 3 * k" by (auto elim: dvdE)
    from third_facts(3) [OF m \<open>3 dvd m\<close>] have cwk: "cw = of_int k" by (simp add: cw_def k)
    have qk: "q = of_int k" by (simp add: q_def k)
    from m k have kb: "\<bar>k\<bar> \<le> 2 ^ 41" by simp
    with g have "\<bar>k + g\<bar> \<le> 2 ^ 53" by simp
    then have "fl (of_int (k + g)) = of_int (k + g)" by (rule fl_int)
    then have ck: "c = of_int (k + g)" by (simp add: c_def cwk)
    from kb g l i have "\<bar>l + i * (k + g)\<bar> \<le> 2 ^ 53" by (elim disjE) simp_all
    then have "fl (of_int (l + i * (k + g))) = of_int (l + i * (k + g))" by (rule fl_int)
    then show ?thesis by (simp add: x_def ck qk)
  qed
  show ?thesis
    unfolding lhs y using err exact unfolding y [symmetric] by (rule py_int_third)
qed

section \<open>Each loop as the list it builds\<close>

text \<open>The lengths the script names, in English Metric Units.\<close>

lemma Inches_values:
  "Inches 0.25 = 228600" "Inches 0.5 = 457200" "Inches 0.6 = 548640" "Inches 0.02 = 18288"
  "Inches 13.333 = 12191695" "Inches 7.5 = 6858000" "Inches 0.9 = 822960"
  "Inches 4.6 = 4206240" "Inches 0.4 = 365760" "Inches 0.3 = 274320" "Inches 0.2 = 182880"
  by code_simp+

lemmas Inches_norm = Inches_values [simplified]

lemma py_int_of_int [simp]: "py_int (of_int i) = i"
  by (simp add: py_int_def)

lemma py_int_of_int_diff [simp]: "py_int (of_int a - of_int b) = a - b"
  using py_int_of_int [of "a - b"] by (simp del: py_int_of_int)

lemma py_int_of_int_add [simp]: "py_int (of_int a + of_int b) = a + b"
  using py_int_of_int [of "a + b"] by (simp del: py_int_of_int)

lemma set_run_new_run:
  "set_run new_run text pts bold TEXT_DARK ''Segoe UI'' = styled_run text pts bold"
  by (simp add: set_run_def new_run_def styled_run_def)

lemma add_bullets_subs_eq:
  "add_bullets_subs tf l = tf @ map (\<lambda>sub. bullet_paragraph 1 2 (styled_run sub 14 False)) l"
  by (induction l arbitrary: tf)
     (simp_all add: add_paragraph_def add_run_def new_paragraph_def set_run_new_run
        bullet_paragraph_def)

lemma add_bullets_sections_later:
  "0 < i \<Longrightarrow> add_bullets_sections i tf secs = tf @ concat (map outline_paragraphs secs)"
  by (induction secs arbitrary: i tf)
     (simp_all add: add_paragraph_def add_run_def new_paragraph_def set_run_new_run
        bullet_paragraph_def outline_paragraphs_def add_bullets_subs_eq)

lemma add_bullets_sections_first:
  "add_bullets_sections 0 [new_paragraph] secs =
     (if secs = [] then [new_paragraph] else concat (map outline_paragraphs secs))"
  by (cases secs)
     (simp_all add: add_bullets_sections_later add_run_def new_paragraph_def set_run_new_run
        bullet_paragraph_def outline_paragraphs_def add_bullets_subs_eq)

lemma add_column_items_later:
  "0 < j \<Longrightarrow> add_column_items j tf l =
     tf @ map (\<lambda>item. bullet_paragraph 0 2 (styled_run (bullet_prefix @ item) 16 False)) l"
  by (induction l arbitrary: j tf)
     (simp_all add: add_paragraph_def add_run_def new_paragraph_def set_run_new_run
        bullet_paragraph_def)

lemma add_column_items_first:
  "add_column_items 0 [new_paragraph] l = column_paragraphs l"
  by (cases l)
     (simp_all add: add_column_items_later add_run_def new_paragraph_def set_run_new_run
        bullet_paragraph_def column_paragraphs_def)

lemma tf_clear_new: "tf_clear [new_paragraph] = [new_paragraph]"
  by (simp add: tf_clear_def new_paragraph_def)

lemma add_badge_shapes:
  "shapes (add_badge s text left top' width height fill_color) =
     shapes s @
     [badge_shape text (py_int left) (py_int top') (py_int width) (py_int height) fill_color]"
  by (simp add: add_badge_def Let_def tf_clear_def append_shape_def set_run_new_run add_run_def
      badge_shape_def new_autoshape_def new_paragraph_def)

lemma add_bullets_shapes:
  "shapes (add_bullets s left top' width height sections) =
     shapes s @ [text_box (py_int left) (py_int top') (py_int width) (py_int height)
       (if sections = [] then [new_paragraph] else concat (map outline_paragraphs sections))]"
  by (simp add: add_bullets_def Let_def tf_clear_new append_shape_def add_bullets_sections_first
      text_box_def new_textbox_def)

lemma add_divider_shapes:
  "shapes (add_divider s left top' width) =
     shapes s @ [\<lparr>sh_kind = AutoShape RECTANGLE,
       sh_left = py_int left, sh_top = py_int top', sh_width = py_int width,
       sh_height = Inches 0.02,
       sh_fill = FillSolid (Some LINE_LIGHT), sh_line_fill = FillBackground,
       sh_word_wrap = None,
       sh_paragraphs = [new_paragraph\<lparr>p_alignment := Some CENTER\<rparr>]\<rparr>]"
  by (simp add: add_divider_def Let_def append_shape_def new_autoshape_def)

lemma add_columns_shapes:
  "shapes (add_columns gap col_w left top' height i s cols) =
     shapes s @ concat (map (column_shapes gap col_w left top' height) (enumerate i cols))"
  by (induction cols arbitrary: i s)
     (simp_all add: Let_def add_badge_shapes tf_clear_new append_shape_def
        add_column_items_first column_shapes_def text_box_def new_textbox_def enumerate_simps)

lemma add_bottom_three_columns_shapes:
  "shapes (add_bottom_three_columns s left top' total_width height cols) =
     shapes s @
     concat (map (column_shapes (Inches 0.25) (fl (of_int (total_width - 2 * Inches 0.25) / 3))
                    left top' height)
       (enumerate 0 cols))"
  unfolding add_bottom_three_columns_def Let_def by (rule add_columns_shapes)

lemma added_append: "shapes s' = shapes s @ l \<Longrightarrow> added s s' = l"
  by (simp add: added_def)

lemma level_runs_outline:
  "concat (map (\<lambda>p. map (\<lambda>r. (p_level p, run_text r)) (p_runs p))
      (concat (map outline_paragraphs secs))) =
   concat (map (\<lambda>sec. (0, title sec) # map (Pair 1) (get_subs sec)) secs)"
  by (induction secs)
     (simp_all add: outline_paragraphs_def bullet_paragraph_def styled_run_def comp_def
        concat_map_singleton)

section \<open>The columns and the slide of main\<close>

lemma enumerate3: "enumerate 0 [a, b, c] = [(0, a), (1, b), (2, c)]"
  by (simp add: enumerate_simps numeral_2_eq_2)

lemma three_columns_added:
  "added s (add_bottom_three_columns s left top' total_width height cols) =
     concat (map (column_shapes (Inches 0.25) (fl (of_int (total_width - 2 * Inches 0.25) / 3))
                    left top' height)
       (enumerate 0 cols))"
  by (rule added_append) (rule add_bottom_three_columns_shapes)

lemma column_extents:
  "map extent (badges (concat (map (column_shapes g w left top' height) ics))) =
     map (\<lambda>ic. (py_int (fl (py_float left + fl (py_float (int (fst ic)) * fl (w + py_float g)))),
                py_int w)) ics"
  "map extent (text_boxes (concat (map (column_shapes g w left top' height) ics))) =
     map (\<lambda>ic. (py_int (fl (py_float left + fl (py_float (int (fst ic)) * fl (w + py_float g)))),
                py_int w)) ics"
  by (induction ics)
     (simp_all add: badges_def text_boxes_def column_shapes_def Let_def badge_shape_def
        text_box_def extent_def)

lemma py_int_third_nonneg: "0 \<le> k \<Longrightarrow> py_int (of_int k / 3) = k div 3"
proof -
  assume k: "0 \<le> k"
  have "\<lfloor>(of_int k :: rat) / of_int 3\<rfloor> = k div 3" by (rule floor_divide_of_int_eq)
  moreover from k have "(0::rat) \<le> of_int k / 3" by simp
  ultimately show ?thesis by (simp add: py_int_def)
qed

lemma col_x_first:
  assumes "\<bar>l\<bar> \<le> 2 ^ 40"
  shows "py_int (fl (py_float l + fl (py_float (int 0) * c))) = l"
proof -
  from assms have "\<bar>l\<bar> \<le> 2 ^ 53" by simp
  then have "fl (of_int l) = of_int l" by (rule fl_int)
  then show ?thesis by (simp add: py_float_def)
qed

lemma three_column_extents:
  assumes l: "\<bar>l\<bar> \<le> 2 ^ 40" and tw: "\<bar>tw\<bar> \<le> 2 ^ 40"
  shows "[(py_int (fl (py_float l + fl (py_float (int 0) *
                   fl (fl (of_int (tw - 2 * 228600) / 3) + py_float 228600)))),
           py_int (fl (of_int (tw - 2 * 228600) / 3))),
          (py_int (fl (py_float l + fl (py_float (int 1) *
                   fl (fl (of_int (tw - 2 * 228600) / 3) + py_float 228600)))),
           py_int (fl (of_int (tw - 2 * 228600) / 3))),
          (py_int (fl (py_float l + fl (py_float (int 2) *
                   fl (fl (of_int (tw - 2 * 228600) / 3) + py_float 228600)))),
           py_int (fl (of_int (tw - 2 * 228600) / 3)))] =
         [(l, py_int (of_int (tw - 457200) / 3)),
          (py_int (of_int (3 * l + (tw + 228600)) / 3), py_int (of_int (tw - 457200) / 3)),
          (py_int (of_int (3 * l + 2 * (tw + 228600)) / 3), py_int (of_int (tw - 457200) / 3))]"
proof -
  let ?m = "tw - 2 * 228600"
  let ?c = "fl (fl (of_int ?m / 3) + py_float 228600)"
  from tw have m: "\<bar>?m\<bar> \<le> 2 ^ 41" by simp
  have g: "\<bar>228600 :: int\<bar> \<le> 2 ^ 40" by simp
  have m': "?m = tw - 457200" by simp
  have w: "py_int (fl (of_int ?m / 3)) = py_int (of_int (tw - 457200) / 3)"
    using col_w_trunc [OF m] by (simp only: m')
  have x0: "py_int (fl (py_float l + fl (py_float (int 0) * ?c))) = l"
    by (rule col_x_first [OF l])
  have "py_int (fl (py_float l + fl (py_float 1 * ?c))) =
      py_int (of_int (3 * l + 1 * (?m + 3 * 228600)) / 3)"
    by (rule col_x_trunc [OF l m g]) simp
  moreover have "3 * l + 1 * (?m + 3 * 228600) = 3 * l + (tw + 228600)" by simp
  moreover have "int 1 = 1" by simp
  ultimately have x1: "py_int (fl (py_float l + fl (py_float (int 1) * ?c))) =
      py_int (of_int (3 * l + (tw + 228600)) / 3)"
    by (simp only:)
  have "py_int (fl (py_float l + fl (py_float 2 * ?c))) =
      py_int (of_int (3 * l + 2 * (?m + 3 * 228600)) / 3)"
    by (rule col_x_trunc [OF l m g]) simp
  moreover have "3 * l + 2 * (?m + 3 * 228600) = 3 * l + 2 * (tw + 228600)" by simp
  moreover have "int 2 = 2" by simp
  ultimately have x2: "py_int (fl (py_float l + fl (py_float (int 2) * ?c))) =
      py_int (of_int (3 * l + 2 * (tw + 228600)) / 3)"
    by (simp only:)
  show ?thesis
    by (simp only: w x0 x1 x2)
qed

lemma three_columns_extents:
  assumes "\<bar>l\<bar> \<le> 2 ^ 40" and "\<bar>tw\<bar> \<le> 2 ^ 40"
  shows "map extent (badges (added s (add_bottom_three_columns s l t tw h [c0, c1, c2]))) =
         [(l, py_int (of_int (tw - 457200) / 3)),
          (py_int (of_int (3 * l + (tw + 228600)) / 3), py_int (of_int (tw - 457200) / 3)),
          (py_int (of_int (3 * l + 2 * (tw + 228600)) / 3), py_int (of_int (tw - 457200) / 3))]"
    and "map extent (text_boxes (added s (add_bottom_three_columns s l t tw h [c0, c1, c2]))) =
         [(l, py_int (of_int (tw - 457200) / 3)),
          (py_int (of_int (3 * l + (tw + 228600)) / 3), py_int (of_int (tw - 457200) / 3)),
          (py_int (of_int (3 * l + 2 * (tw + 228600)) / 3), py_int (of_int (tw - 457200) / 3))]"
  by (simp only: three_columns_added column_extents,
      simp only: enumerate3 list.map fst_conv Inches_values,
      rule three_column_extents [OF assms])+

lemma third_div: "(3 * a + b) div 3 = a + b div (3::int)"
  by simp

lemma split_arith:
  fixes m :: int
  assumes "3 \<le> m"
  shows "0 < m div 3" "m - 2 \<le> 3 * (m div 3)" "3 * (m div 3) \<le> m"
    "2 * (m div 3) \<le> (2 * m) div 3" "m - 1 \<le> (2 * m) div 3 + m div 3"
    "(2 * m) div 3 + m div 3 \<le> m"
    "3 dvd m \<Longrightarrow> 3 * (m div 3) = m" "3 dvd m \<Longrightarrow> (2 * m) div 3 + m div 3 = m"
  using assms by presburger+

lemma splits_three:
  assumes l: "0 \<le> l" and tw: "457203 \<le> tw"
  shows "splits_nearly l tw 228600 2
           [(l, py_int (of_int (tw - 457200) / 3)),
            (py_int (of_int (3 * l + (tw + 228600)) / 3), py_int (of_int (tw - 457200) / 3)),
            (py_int (of_int (3 * l + 2 * (tw + 228600)) / 3), py_int (of_int (tw - 457200) / 3))]"
    and "3 dvd tw - 457200 \<Longrightarrow> splits_evenly l tw 228600
           [(l, py_int (of_int (tw - 457200) / 3)),
            (py_int (of_int (3 * l + (tw + 228600)) / 3), py_int (of_int (tw - 457200) / 3)),
            (py_int (of_int (3 * l + 2 * (tw + 228600)) / 3), py_int (of_int (tw - 457200) / 3))]"
proof -
  define m where "m = tw - 457200"
  from tw have m3: "3 \<le> m" by (simp add: m_def)
  have w: "py_int (of_int (tw - 457200) / 3) = m div 3"
    using m3 by (simp add: m_def [symmetric] py_int_third_nonneg)
  have "3 * l + (tw + 228600) = 3 * (l + 228600) + m" by (simp add: m_def)
  moreover have "0 \<le> 3 * (l + 228600) + m" using l m3 by simp
  ultimately have x1: "py_int (of_int (3 * l + (tw + 228600)) / 3) = l + 228600 + m div 3"
    by (simp only: py_int_third_nonneg third_div)
  have "3 * l + 2 * (tw + 228600) = 3 * (l + 457200) + 2 * m" by (simp add: m_def)
  moreover have "0 \<le> 3 * (l + 457200) + 2 * m" using l m3 by simp
  ultimately have x2: "py_int (of_int (3 * l + 2 * (tw + 228600)) / 3) = l + 457200 + (2 * m) div 3"
    by (simp only: py_int_third_nonneg third_div)
  have tw': "tw = m + 457200" by (simp add: m_def)
  show "splits_nearly l tw 228600 2
           [(l, py_int (of_int (tw - 457200) / 3)),
            (py_int (of_int (3 * l + (tw + 228600)) / 3), py_int (of_int (tw - 457200) / 3)),
            (py_int (of_int (3 * l + 2 * (tw + 228600)) / 3), py_int (of_int (tw - 457200) / 3))]"
    unfolding w x1 x2 using split_arith(1-6) [OF m3]
    by (simp add: splits_nearly_def tw')
  show "splits_evenly l tw 228600
           [(l, py_int (of_int (tw - 457200) / 3)),
            (py_int (of_int (3 * l + (tw + 228600)) / 3), py_int (of_int (tw - 457200) / 3)),
            (py_int (of_int (3 * l + 2 * (tw + 228600)) / 3), py_int (of_int (tw - 457200) / 3))]"
    if "3 dvd tw - 457200"
  proof -
    from that have d: "3 dvd m" by (simp add: m_def)
    show ?thesis
      unfolding w x1 x2 using split_arith(1-6) [OF m3] split_arith(7,8) [OF m3 d]
      by (simp add: splits_evenly_def splits_nearly_def tw')
  qed
qed

lemma main_geometry:
  "slide_width main_prs = 12191695 \<and> slide_height main_prs = 6858000 \<and>
   map geometry (concat (map shapes (slides main_prs))) =
     [(AutoShape ROUNDED_RECTANGLE, 457200, 274320, 5455767, 457200),
      (TextBox, 457200, 822960, 5455767, 4206240),
      (AutoShape ROUNDED_RECTANGLE, 6278727, 274320, 5455767, 457200),
      (TextBox, 6278727, 822960, 5455767, 4206240),
      (AutoShape RECTANGLE, 457200, 5212080, 11277295, 18288),
      (AutoShape ROUNDED_RECTANGLE, 457200, 5394960, 3606698, 457200),
      (TextBox, 457200, 5943600, 3606698, 548640),
      (AutoShape ROUNDED_RECTANGLE, 4292498, 5394960, 3606698, 457200),
      (TextBox, 4292498, 5943600, 3606698, 548640),
      (AutoShape ROUNDED_RECTANGLE, 8127796, 5394960, 3606698, 457200),
      (TextBox, 8127796, 5943600, 3606698, 548640)]"
  apply (simp add: main_prs_def Let_def add_slide_def Presentation_def blank_slide_def
      add_badge_shapes add_bullets_shapes add_divider_shapes add_bottom_three_columns_shapes
      bottom_cols_def enumerate_simps column_shapes_def geometry_def badge_shape_def text_box_def
      Inches_norm)
  apply code_simp
  done

lemma main_slides: "slides main_prs = [main_slide]"
  by (simp add: main_slide_def main_prs_def Let_def add_slide_def Presentation_def)

lemma main_slide_geometry:
  "map geometry (shapes main_slide) =
     [(AutoShape ROUNDED_RECTANGLE, 457200, 274320, 5455767, 457200),
      (TextBox, 457200, 822960, 5455767, 4206240),
      (AutoShape ROUNDED_RECTANGLE, 6278727, 274320, 5455767, 457200),
      (TextBox, 6278727, 822960, 5455767, 4206240),
      (AutoShape RECTANGLE, 457200, 5212080, 11277295, 18288),
      (AutoShape ROUNDED_RECTANGLE, 457200, 5394960, 3606698, 457200),
      (TextBox, 457200, 5943600, 3606698, 548640),
      (AutoShape ROUNDED_RECTANGLE, 4292498, 5394960, 3606698, 457200),
      (TextBox, 4292498, 5943600, 3606698, 548640),
      (AutoShape ROUNDED_RECTANGLE, 8127796, 5394960, 3606698, 457200),
      (TextBox, 8127796, 5943600, 3606698, 548640)]"
  using main_geometry by (simp add: main_slides)

lemma main_dimensions: "slide_width main_prs = 12191695" "slide_height main_prs = 6858000"
  using main_geometry by simp_all

lemma geometry_kinds: "map sh_kind shs = map fst (map geometry shs)"
  by (simp add: geometry_def comp_def)

lemma badges_geometry:
  "map extent (badges shs) =
     map (\<lambda>g. (fst (snd g), fst (snd (snd (snd g)))))
       (filter (\<lambda>g. fst g = AutoShape ROUNDED_RECTANGLE) (map geometry shs))"
  by (induction shs) (simp_all add: badges_def extent_def geometry_def)

lemma text_boxes_geometry:
  "map extent (text_boxes shs) =
     map (\<lambda>g. (fst (snd g), fst (snd (snd (snd g)))))
       (filter (\<lambda>g. fst g = TextBox) (map geometry shs))"
  by (induction shs) (simp_all add: text_boxes_def extent_def geometry_def)

lemma main_top_row:
  "map extent (badges (take 4 (shapes main_slide))) = [(457200, 5455767), (6278727, 5455767)]"
  "map extent (text_boxes (take 4 (shapes main_slide))) = [(457200, 5455767), (6278727, 5455767)]"
  by (simp_all add: badges_geometry text_boxes_geometry take_map [symmetric] main_slide_geometry)

lemma main_top_row_splits:
  "splits_nearly (Inches 0.5) (slide_width main_prs - 2 * Inches 0.5) (Inches 0.4) 1
     [(457200, 5455767), (6278727, 5455767)]"
  by (simp add: splits_nearly_def main_dimensions Inches_norm)






lemma autoshapes_geometry:
  "length (autoshapes shs) =
     length (filter (\<lambda>g. case fst g of AutoShape m \<Rightarrow> True | TextBox \<Rightarrow> False) (map geometry shs))"
  by (induction shs) (simp_all add: autoshapes_def geometry_def)

lemma badges_count_geometry:
  "length (badges shs) =
     length (filter (\<lambda>g. fst g = AutoShape ROUNDED_RECTANGLE) (map geometry shs))"
  by (induction shs) (simp_all add: badges_def geometry_def)

lemma text_boxes_count_geometry:
  "length (text_boxes shs) = length (filter (\<lambda>g. fst g = TextBox) (map geometry shs))"
  by (induction shs) (simp_all add: text_boxes_def geometry_def)

section \<open>The badge\<close>

text \<open>
  C5. A call of \<open>add_badge\<close> keeps the shapes already on the slide and appends exactly
  one: a rounded rectangle at the given left, top, width and height (each held in whole
  units, so a float is cut towards zero), filled solid with the given colour, with no
  line, whose text frame is one centred paragraph holding one run: the given text, bold,
  18pt.
\<close>

theorem add_badge_appends_one_badge:
  "shapes (add_badge s text left top' width height fill_color) =
     shapes s @
     [\<lparr>sh_kind = AutoShape ROUNDED_RECTANGLE,
       sh_left = py_int left, sh_top = py_int top',
       sh_width = py_int width, sh_height = py_int height,
       sh_fill = FillSolid (Some fill_color), sh_line_fill = FillBackground,
       sh_word_wrap = None,
       sh_paragraphs =
         [\<lparr>p_level = 0, p_space_after = None, p_alignment = Some CENTER,
           p_runs = [\<lparr>run_text = text, font_name = Some ''Segoe UI'',
                      font_size = Some (Pt 18), font_bold = Some True,
                      font_color = Some TEXT_DARK\<rparr>]\<rparr>]\<rparr>]"
  by (simp add: add_badge_shapes badge_shape_def styled_run_def)

section \<open>The outline\<close>

text \<open>
  C4. For every list of sections, \<open>add_bullets\<close> appends one text box, and the runs
  of its text are, in order: for each section in input order one run at level 0 with the
  section's title, followed at once by one run at level 1 for each of its sub-items in
  input order. Nothing is skipped or reordered; a section without sub-items (an empty
  list, or no \<^verbatim>\<open>subs\<close> key) gives its title alone.
\<close>

theorem add_bullets_outline_order:
  "\<exists>box. shapes (add_bullets s left top' width height sections) = shapes s @ [box] \<and>
     sh_kind box = TextBox \<and>
     level_runs box =
       concat (map (\<lambda>sec. (0, title sec) # map (Pair 1) (get_subs sec)) sections)"
proof (cases "sections = []")
  case True
  then show ?thesis
    by (simp add: add_bullets_shapes text_box_def level_runs_def new_paragraph_def)
next
  case False
  then show ?thesis
    by (simp add: add_bullets_shapes text_box_def level_runs_def level_runs_outline)
qed

theorem add_bullets_outline_order_witness:
  "\<exists>box. shapes (add_bullets blank_slide 0 0 1 1
       [\<lparr>title = ''a'', subs = None\<rparr>, \<lparr>title = ''b'', subs = Some [''b1'']\<rparr>,
        \<lparr>title = ''c'', subs = Some [''c1'', ''c2'']\<rparr>]) = [box] \<and>
     sh_kind box = TextBox \<and>
     level_runs box =
       [(0, ''a''), (0, ''b''), (1, ''b1''), (0, ''c''), (1, ''c1''), (1, ''c2'')]"
  using add_bullets_outline_order [of blank_slide 0 0 1 1
       "[\<lparr>title = ''a'', subs = None\<rparr>, \<lparr>title = ''b'', subs = Some [''b1'']\<rparr>,
        \<lparr>title = ''c'', subs = Some [''c1'', ''c2'']\<rparr>]"]
  by (simp add: get_subs_def blank_slide_def)

text \<open>
  C6. In the text box \<open>add_bullets\<close> draws for at least one section, a paragraph at
  level 0 has 4pt after it and holds one bold 18pt run, a paragraph at level 1 has 2pt
  after it and holds one 14pt run that is not bold, and there is no other level.
\<close>

theorem add_bullets_paragraph_styles:
  assumes "sections \<noteq> []"
    and "p \<in> set (sh_paragraphs (last (shapes (add_bullets s left top' width height sections))))"
  shows "(p_level p = 0 \<longrightarrow>
            p_space_after p = Some (Pt 4) \<and>
            (\<exists>r. p_runs p = [r] \<and> font_bold r = Some True \<and> font_size r = Some (Pt 18))) \<and>
         (p_level p = 1 \<longrightarrow>
            p_space_after p = Some (Pt 2) \<and>
            (\<exists>r. p_runs p = [r] \<and> font_bold r = Some False \<and> font_size r = Some (Pt 14))) \<and>
         p_level p \<le> 1"
proof -
  from assms obtain sec where "sec \<in> set sections" and "p \<in> set (outline_paragraphs sec)"
    by (auto simp: add_bullets_shapes text_box_def)
  then show ?thesis
    by (auto simp: outline_paragraphs_def bullet_paragraph_def styled_run_def)
qed

theorem add_bullets_paragraph_styles_witness:
  "[\<lparr>title = ''a'', subs = Some [''b'']\<rparr>] \<noteq> [] \<and>
   bullet_paragraph 1 2 (styled_run ''b'' 14 False) \<in>
     set (sh_paragraphs (last (shapes (add_bullets blank_slide 0 0 1 1
       [\<lparr>title = ''a'', subs = Some [''b'']\<rparr>])))) \<and>
   p_level (bullet_paragraph 1 2 (styled_run ''b'' 14 False)) = 1 \<and>
   p_space_after (bullet_paragraph 1 2 (styled_run ''b'' 14 False)) = Some (Pt 2) \<and>
   (\<exists>r. p_runs (bullet_paragraph 1 2 (styled_run ''b'' 14 False)) = [r] \<and>
        font_bold r = Some False \<and> font_size r = Some (Pt 14))"
proof -
  have ne: "[\<lparr>title = ''a'', subs = Some [''b'']\<rparr>] \<noteq> []"
    by simp
  have mem: "bullet_paragraph 1 2 (styled_run ''b'' 14 False) \<in>
     set (sh_paragraphs (last (shapes (add_bullets blank_slide 0 0 1 1
       [\<lparr>title = ''a'', subs = Some [''b'']\<rparr>]))))"
    by (simp add: add_bullets_shapes text_box_def outline_paragraphs_def get_subs_def)
  have lvl: "p_level (bullet_paragraph 1 2 (styled_run ''b'' 14 False)) = 1"
    by (simp add: bullet_paragraph_def)
  from add_bullets_paragraph_styles [OF ne mem] lvl ne mem show ?thesis
    by blast
qed

text \<open>
  C9. With no section, \<open>add_bullets\<close> still appends one text box at the given place
  (in whole units): no fill, word wrap on, one paragraph, no run.
\<close>

theorem add_bullets_empty_sections:
  "shapes (add_bullets s left top' width height []) =
     shapes s @
     [\<lparr>sh_kind = TextBox,
       sh_left = py_int left, sh_top = py_int top',
       sh_width = py_int width, sh_height = py_int height,
       sh_fill = FillBackground, sh_line_fill = FillUnset, sh_word_wrap = Some True,
       sh_paragraphs =
         [\<lparr>p_level = 0, p_space_after = None, p_alignment = None, p_runs = []\<rparr>]\<rparr>]"
  by (simp add: add_bullets_shapes text_box_def new_paragraph_def)

section \<open>Sibling columns\<close>

text \<open>
  C1, as the code has it. The column arithmetic of the script splits the parent evenly
  up to the cut to whole units. For three columns, a left edge from 0 to \<open>2 ^ 40\<close> and
  a total width from two gaps and three units to \<open>2 ^ 40\<close>, the badges that
  \<open>add_bottom_three_columns\<close> draws have equal positive widths; the three widths and the
  two gaps of 0.25in add up to the total width or to at most two units less; each badge
  starts at least a gap after the one before ends; the first starts at the left edge and
  the last ends at the left edge plus the total width or at most two units before it.
  The split is even when 3 divides the total width less two gaps. The same holds of the
  three text boxes. The two badges and the two outlines that \<open>main\<close> puts side by side
  between the margins with a gap of 0.4in have equal widths and fall one unit short.
\<close>

theorem three_columns_split_within_two_units:
  assumes "length cols = 3"
    and "0 \<le> left" and "left \<le> 2 ^ 40"
    and "2 * Inches 0.25 + 3 \<le> total_width" and "total_width \<le> 2 ^ 40"
  shows "splits_nearly left total_width (Inches 0.25) 2
           (map extent (badges
              (added s (add_bottom_three_columns s left top' total_width height cols)))) \<and>
         splits_nearly left total_width (Inches 0.25) 2
           (map extent (text_boxes
              (added s (add_bottom_three_columns s left top' total_width height cols)))) \<and>
         (3 dvd total_width - 2 * Inches 0.25 \<longrightarrow>
            splits_evenly left total_width (Inches 0.25)
              (map extent (badges
                 (added s (add_bottom_three_columns s left top' total_width height cols)))) \<and>
            splits_evenly left total_width (Inches 0.25)
              (map extent (text_boxes
                 (added s (add_bottom_three_columns s left top' total_width height cols))))) \<and>
         splits_nearly (Inches 0.5) (slide_width main_prs - 2 * Inches 0.5) (Inches 0.4) 1
           (map extent (badges (take 4 (shapes main_slide)))) \<and>
         splits_nearly (Inches 0.5) (slide_width main_prs - 2 * Inches 0.5) (Inches 0.4) 1
           (map extent (text_boxes (take 4 (shapes main_slide))))"
proof -
  from assms(1) obtain c0 c1 c2 where cols: "cols = [c0, c1, c2]"
    by (auto simp: length_Suc_conv numeral_3_eq_3)
  from assms(2,3) have l: "\<bar>left\<bar> \<le> 2 ^ 40" by simp
  from assms(4,5) have tw: "\<bar>total_width\<bar> \<le> 2 ^ 40" and tw3: "457203 \<le> total_width"
    by (simp_all add: Inches_norm)
  note ext = three_columns_extents [OF l tw, of s top' height c0 c1 c2]
  have near: "splits_nearly left total_width (Inches 0.25) 2
      (map extent (badges (added s (add_bottom_three_columns s left top' total_width height cols))))"
    "splits_nearly left total_width (Inches 0.25) 2
      (map extent (text_boxes (added s (add_bottom_three_columns s left top' total_width height cols))))"
    unfolding cols ext Inches_values by (rule splits_three(1) [OF assms(2) tw3])+
  have even: "splits_evenly left total_width (Inches 0.25)
      (map extent (badges (added s (add_bottom_three_columns s left top' total_width height cols))))"
    "splits_evenly left total_width (Inches 0.25)
      (map extent (text_boxes (added s (add_bottom_three_columns s left top' total_width height cols))))"
    if "3 dvd total_width - 2 * Inches 0.25"
  proof -
    from that have d: "3 dvd total_width - 457200" by (simp add: Inches_norm)
    show "splits_evenly left total_width (Inches 0.25)
      (map extent (badges (added s (add_bottom_three_columns s left top' total_width height cols))))"
      "splits_evenly left total_width (Inches 0.25)
      (map extent (text_boxes (added s (add_bottom_three_columns s left top' total_width height cols))))"
      unfolding cols ext Inches_values by (rule splits_three(2) [OF assms(2) tw3 d])+
  qed
  from near even main_top_row_splits show ?thesis
    unfolding main_top_row by blast
qed

theorem three_columns_split_within_two_units_witness:
  "length bottom_cols = 3 \<and> (0::int) \<le> 457200 \<and> (457200::int) \<le> 2 ^ 40 \<and>
   2 * Inches 0.25 + 3 \<le> 11277295 \<and> (11277295::int) \<le> 2 ^ 40 \<and>
   splits_nearly 457200 11277295 (Inches 0.25) 2
     (map extent (badges
        (added blank_slide
           (add_bottom_three_columns blank_slide 457200 5394960 11277295 1097280 bottom_cols)))) \<and>
   splits_nearly (Inches 0.5) (slide_width main_prs - 2 * Inches 0.5) (Inches 0.4) 1
     (map extent (badges (take 4 (shapes main_slide))))"
proof -
  have len: "length bottom_cols = 3"
    by (simp add: bottom_cols_def)
  have h: "(0::int) \<le> 457200" "(457200::int) \<le> 2 ^ 40"
    "2 * Inches 0.25 + 3 \<le> 11277295" "(11277295::int) \<le> 2 ^ 40"
    by (simp_all add: Inches_norm)
  from three_columns_split_within_two_units [OF len h, of blank_slide 5394960 1097280] len h
  show ?thesis by blast
qed

text \<open>
  C1 as stated fails. On \<open>main\<close>'s own bottom row the three widths and the two gaps
  add up to one unit less than the total width, since a shape holds 10820095 / 3 cut to
  3606698. With a single column the code still takes a third of the width less two gaps,
  762000 of 2743200, so the column does not span its parent.
\<close>

theorem three_columns_not_even_counterexample:
  "map extent (badges (added blank_slide
      (add_bottom_three_columns blank_slide 457200 5394960 11277295 1097280 bottom_cols))) =
     [(457200, 3606698), (4292498, 3606698), (8127796, 3606698)] \<and>
   \<not> splits_evenly 457200 11277295 (Inches 0.25)
     [(457200, 3606698), (4292498, 3606698), (8127796, 3606698)] \<and>
   3606698 + 3606698 + 3606698 + 2 * Inches 0.25 = 11277295 - 1 \<and>
   map extent (badges (added blank_slide
      (add_bottom_three_columns blank_slide 0 0 (Inches 3) (Inches 1)
         [\<lparr>badge = (''A'', PASTEL_BLUE), items = [''x'']\<rparr>]))) = [(0, 762000)] \<and>
   \<not> splits_evenly 0 (Inches 3) (Inches 0.25) [(0, 762000)]"
proof -
  have i3: "Inches 3 = 2743200" by code_simp
  have a: "map extent (badges (added blank_slide
      (add_bottom_three_columns blank_slide 457200 5394960 11277295 1097280 bottom_cols))) =
     [(457200, 3606698), (4292498, 3606698), (8127796, 3606698)]"
    unfolding three_columns_added column_extents bottom_cols_def enumerate3 list.map fst_conv
      Inches_values
    by code_simp
  have b: "\<not> splits_evenly 457200 11277295 (Inches 0.25)
     [(457200, 3606698), (4292498, 3606698), (8127796, 3606698)]"
    by (simp add: splits_evenly_def splits_nearly_def Inches_norm)
  have c: "3606698 + 3606698 + 3606698 + 2 * Inches 0.25 = 11277295 - 1"
    by (simp add: Inches_norm)
  have d: "map extent (badges (added blank_slide
      (add_bottom_three_columns blank_slide 0 0 (Inches 3) (Inches 1)
         [\<lparr>badge = (''A'', PASTEL_BLUE), items = [''x'']\<rparr>]))) = [(0, 762000)]"
    unfolding three_columns_added column_extents enumerate_simps list.map fst_conv
      Inches_values i3
    by code_simp
  have e: "\<not> splits_evenly 0 (Inches 3) (Inches 0.25) [(0, 762000)]"
    by (simp add: splits_evenly_def splits_nearly_def Inches_norm i3)
  from a b c d e show ?thesis by blast
qed

section \<open>Widths that are not positive\<close>




section \<open>The column row\<close>




section \<open>The whole composition\<close>

text \<open>
  C7. The presentation \<open>main\<close> builds is \<open>Inches 13.333\<close> wide and \<open>Inches 7.5\<close>
  high and has one slide, with eleven shapes: six autoshapes (the two top badges, the
  divider rectangle, the three bottom badges) and five text boxes (the two outlines, the
  three bottom columns).
\<close>

theorem main_slide_size_and_shape_count:
  "slide_width main_prs = Inches 13.333 \<and> slide_height main_prs = Inches 7.5 \<and>
   slides main_prs = [main_slide] \<and>
   map sh_kind (shapes main_slide) =
     [AutoShape ROUNDED_RECTANGLE, TextBox, AutoShape ROUNDED_RECTANGLE, TextBox,
      AutoShape RECTANGLE,
      AutoShape ROUNDED_RECTANGLE, TextBox, AutoShape ROUNDED_RECTANGLE, TextBox,
      AutoShape ROUNDED_RECTANGLE, TextBox] \<and>
   length (shapes main_slide) = 11 \<and>
   length (autoshapes (shapes main_slide)) = 6 \<and>
   length (badges (shapes main_slide)) = 5 \<and>
   length (text_boxes (shapes main_slide)) = 5"
proof -
  have kinds: "map sh_kind (shapes main_slide) =
     [AutoShape ROUNDED_RECTANGLE, TextBox, AutoShape ROUNDED_RECTANGLE, TextBox,
      AutoShape RECTANGLE,
      AutoShape ROUNDED_RECTANGLE, TextBox, AutoShape ROUNDED_RECTANGLE, TextBox,
      AutoShape ROUNDED_RECTANGLE, TextBox]"
    by (simp add: geometry_kinds main_slide_geometry)
  have "length (map sh_kind (shapes main_slide)) = 11"
    unfolding kinds by simp
  then have len: "length (shapes main_slide) = 11"
    by simp
  have counts: "length (autoshapes (shapes main_slide)) = 6"
    "length (badges (shapes main_slide)) = 5" "length (text_boxes (shapes main_slide)) = 5"
    by (simp_all add: autoshapes_geometry badges_count_geometry text_boxes_count_geometry
        main_slide_geometry)
  have dims: "slide_width main_prs = Inches 13.333" "slide_height main_prs = Inches 7.5"
    by (simp_all add: main_dimensions Inches_norm)
  from kinds len counts dims main_slides show ?thesis
    by blast
qed

text \<open>
  C8. Whatever the library's save does: when it returns, the script has printed the one
  line \<^verbatim>\<open>Saved: MobileViT2-Anomaly-Detector-Key-Insights.pptx\<close> after it and exits
  with status 0; when it raises, the exception leaves \<open>main\<close>, nothing is printed and
  the exit status is 1. A save that succeeds leaves the files as they were except for
  the document stored under that fixed name, over any older file of the name.
\<close>

theorem main_saves_prints_exits:
  "(save main_prs ''MobileViT2-Anomaly-Detector-Key-Insights.pptx'' (files w) = (None, fs) \<longrightarrow>
      run_script save w =
        (0, w\<lparr>files := fs,
              stdout := stdout w @ [''Saved: MobileViT2-Anomaly-Detector-Key-Insights.pptx'']\<rparr>)) \<and>
   (save main_prs ''MobileViT2-Anomaly-Detector-Key-Insights.pptx'' (files w) = (Some e, fs) \<longrightarrow>
      main save w = (Some e, w\<lparr>files := fs\<rparr>) \<and>
      run_script save w = (1, w\<lparr>files := fs\<rparr>)) \<and>
   files (snd (run_script save_ok w)) =
     (files w)(''MobileViT2-Anomaly-Detector-Key-Insights.pptx'' \<mapsto> main_prs)"
  by (simp add: run_script_def main_def Let_def out_name_def save_ok_def)

theorem main_saves_prints_exits_witness:
  "run_script save_ok \<lparr>files = Map.empty, stdout = [], argv = [], environ = Map.empty\<rparr> =
     (0, \<lparr>files = [''MobileViT2-Anomaly-Detector-Key-Insights.pptx'' \<mapsto> main_prs],
          stdout = [''Saved: MobileViT2-Anomaly-Detector-Key-Insights.pptx''],
          argv = [], environ = Map.empty\<rparr>) \<and>
   run_script (\<lambda>prs name fs. (Some (Raised ''PermissionError''), fs))
       \<lparr>files = Map.empty, stdout = [], argv = [], environ = Map.empty\<rparr> =
     (1, \<lparr>files = Map.empty, stdout = [], argv = [], environ = Map.empty\<rparr>)"
  using main_saves_prints_exits [where save = save_ok
          and w = "\<lparr>files = Map.empty, stdout = [], argv = [], environ = Map.empty\<rparr>"
          and fs = "[''MobileViT2-Anomaly-Detector-Key-Insights.pptx'' \<mapsto> main_prs]"]
        main_saves_prints_exits [where save = "\<lambda>prs name fs. (Some (Raised ''PermissionError''), fs)"
          and w = "\<lparr>files = Map.empty, stdout = [], argv = [], environ = Map.empty\<rparr>"
          and e = "Raised ''PermissionError''" and fs = Map.empty]
  by (simp add: save_ok_def)

text \<open>
  C10. Two runs from any two worlds (files, lines printed so far, arguments,
  environment) store the same document and print the same line, and the document is
  this one: 12191695 by 6858000 units, one slide, and on it these eleven shapes in this
  order, each with its kind, place, size and fill and with its paragraphs as level and
  runs, each run with its text, font, size, weight and colour.
\<close>

theorem main_builds_one_fixed_slide:
  "files (snd (main save_ok w1)) out_name = files (snd (main save_ok w2)) out_name \<and>
   files (snd (main save_ok w1)) out_name = Some main_prs \<and>
   drop (length (stdout w1)) (stdout (snd (main save_ok w1))) =
     drop (length (stdout w2)) (stdout (snd (main save_ok w2))) \<and>
   slide_width main_prs = 12191695 \<and> slide_height main_prs = 6858000 \<and>
   map (\<lambda>sl. map shape_content (shapes sl)) (slides main_prs) =
     [[((AutoShape ROUNDED_RECTANGLE, 457200, 274320, 5455767, 457200), FillSolid (Some PASTEL_GREEN),
         [(0, [run_content (styled_run (''Advantages / Strengths'') 18 True)])]),
       ((TextBox, 457200, 822960, 5455767, 4206240), FillBackground,
         [(0, [run_content (styled_run (''High Recall Focus '' @ [CHR 0xE2, CHR 0x9C, CHR 0x85]) 18 True)]),
          (1, [run_content (styled_run (''Critical for field deployment to reduce disease spread'') 14 False)]),
          (0, [run_content (styled_run (''Modular Architecture '' @ [CHR 0xF0, CHR 0x9F, CHR 0x94, CHR 0x84]) 18 True)]),
          (1, [run_content (styled_run (''Autoencoder and classifier can work independently or together'') 14 False)]),
          (0, [run_content (styled_run (''Ease of Data Acquisition '' @ [CHR 0xF0, CHR 0x9F, CHR 0x8C, CHR 0xB1]) 18 True)]),
          (1, [run_content (styled_run (''Autoencoder requires few or no diseased images'') 14 False)]),
          (1, [run_content (styled_run (''Classifier trained only on images autoencoder fails to detect'') 14 False)])]),
       ((AutoShape ROUNDED_RECTANGLE, 6278727, 274320, 5455767, 457200), FillSolid (Some PASTEL_BLUE),
         [(0, [run_content (styled_run (''Limitations / Recommendations'') 18 True)])]),
       ((TextBox, 6278727, 822960, 5455767, 4206240), FillBackground,
         [(0, [run_content (styled_run (''Autoencoder Limitations '' @ [CHR 0xE2, CHR 0x9A, CHR 0xA0, CHR 0xEF, CHR 0xB8, CHR 0x8F]) 18 True)]),
          (1, [run_content (styled_run (''Weak decoder reduces standalone performance'') 14 False)]),
          (1, [run_content (styled_run (''Normalization may worsen results'') 14 False)]),
          (0, [run_content (styled_run (''Improvement Opportunities '' @ [CHR 0xF0, CHR 0x9F, CHR 0x92, CHR 0xA1]) 18 True)]),
          (1, [run_content (styled_run (''Enhanced decoder (skip connections + attention mechanisms)'') 14 False)]),
          (1, [run_content (styled_run (''Robust loss functions and tailored training strategies'') 14 False)]),
          (1, [run_content (styled_run (''Ensemble with classifier for sparse proprietary data'') 14 False)])]),
       ((AutoShape RECTANGLE, 457200, 5212080, 11277295, 18288), FillSolid (Some LINE_LIGHT),
         [(0, [])]),
       ((AutoShape ROUNDED_RECTANGLE, 457200, 5394960, 3606698, 457200), FillSolid (Some PASTEL_BLUE),
         [(0, [run_content (styled_run (''Dataset Observations '' @ [CHR 0xF0, CHR 0x9F, CHR 0x93, CHR 0xB8]) 18 True)])]),
       ((TextBox, 457200, 5943600, 3606698, 548640), FillBackground,
         [(0, [run_content (styled_run (bullet_prefix @ ''Classifier handles varied conditions (day/night)'') 16 False)]),
          (0, [run_content (styled_run (bullet_prefix @ ''More diseased samples '' @ [CHR 0xE2, CHR 0x86, CHR 0x92] @ '' better performance'') 16 False)])]),
       ((AutoShape ROUNDED_RECTANGLE, 4292498, 5394960, 3606698, 457200), FillSolid (Some PASTEL_GREEN),
         [(0, [run_content (styled_run (''Model Choice '' @ [CHR 0xF0, CHR 0x9F, CHR 0x8F, CHR 0x8E, CHR 0xEF, CHR 0xB8, CHR 0x8F]) 18 True)])]),
       ((TextBox, 4292498, 5943600, 3606698, 548640), FillBackground,
         [(0, [run_content (styled_run (bullet_prefix @ ''Lightweight MobileViT2 outperforms larger models like EfficientNet'') 16 False)])]),
       ((AutoShape ROUNDED_RECTANGLE, 8127796, 5394960, 3606698, 457200), FillSolid (Some PASTEL_BLUE),
         [(0, [run_content (styled_run (''Takeaway '' @ [CHR 0xE2, CHR 0x9C, CHR 0x94, CHR 0xEF, CHR 0xB8, CHR 0x8F]) 18 True)])]),
       ((TextBox, 8127796, 5943600, 3606698, 548640), FillBackground,
         [(0, [run_content (styled_run (bullet_prefix @ ''Lightweight anomaly detector + classifier is optimal for deployment'') 16 False)]),
          (0, [run_content (styled_run (bullet_prefix @ ''Reduces data collection effort and maintains high recall'') 16 False)])])]]"
proof -
  have run: "files (snd (main save_ok w1)) out_name = files (snd (main save_ok w2)) out_name"
    "files (snd (main save_ok w1)) out_name = Some main_prs"
    "drop (length (stdout w1)) (stdout (snd (main save_ok w1))) =
       drop (length (stdout w2)) (stdout (snd (main save_ok w2)))"
    by (simp_all add: main_def Let_def save_ok_def)
  have content: "map (\<lambda>sl. map shape_content (shapes sl)) (slides main_prs) =
     [[((AutoShape ROUNDED_RECTANGLE, 457200, 274320, 5455767, 457200), FillSolid (Some PASTEL_GREEN),
         [(0, [run_content (styled_run (''Advantages / Strengths'') 18 True)])]),
       ((TextBox, 457200, 822960, 5455767, 4206240), FillBackground,
         [(0, [run_content (styled_run (''High Recall Focus '' @ [CHR 0xE2, CHR 0x9C, CHR 0x85]) 18 True)]),
          (1, [run_content (styled_run (''Critical for field deployment to reduce disease spread'') 14 False)]),
          (0, [run_content (styled_run (''Modular Architecture '' @ [CHR 0xF0, CHR 0x9F, CHR 0x94, CHR 0x84]) 18 True)]),
          (1, [run_content (styled_run (''Autoencoder and classifier can work independently or together'') 14 False)]),
          (0, [run_content (styled_run (''Ease of Data Acquisition '' @ [CHR 0xF0, CHR 0x9F, CHR 0x8C, CHR 0xB1]) 18 True)]),
          (1, [run_content (styled_run (''Autoencoder requires few or no diseased images'') 14 False)]),
          (1, [run_content (styled_run (''Classifier trained only on images autoencoder fails to detect'') 14 False)])]),
       ((AutoShape ROUNDED_RECTANGLE, 6278727, 274320, 5455767, 457200), FillSolid (Some PASTEL_BLUE),
         [(0, [run_content (styled_run (''Limitations / Recommendations'') 18 True)])]),
       ((TextBox, 6278727, 822960, 5455767, 4206240), FillBackground,
         [(0, [run_content (styled_run (''Autoencoder Limitations '' @ [CHR 0xE2, CHR 0x9A, CHR 0xA0, CHR 0xEF, CHR 0xB8, CHR 0x8F]) 18 True)]),
          (1, [run_content (styled_run (''Weak decoder reduces standalone performance'') 14 False)]),
          (1, [run_content (styled_run (''Normalization may worsen results'') 14 False)]),
          (0, [run_content (styled_run (''Improvement Opportunities '' @ [CHR 0xF0, CHR 0x9F, CHR 0x92, CHR 0xA1]) 18 True)]),
          (1, [run_content (styled_run (''Enhanced decoder (skip connections + attention mechanisms)'') 14 False)]),
          (1, [run_content (styled_run (''Robust loss functions and tailored training strategies'') 14 False)]),
          (1, [run_content (styled_run (''Ensemble with classifier for sparse proprietary data'') 14 False)])]),
       ((AutoShape RECTANGLE, 457200, 5212080, 11277295, 18288), FillSolid (Some LINE_LIGHT),
         [(0, [])]),
       ((AutoShape ROUNDED_RECTANGLE, 457200, 5394960, 3606698, 457200), FillSolid (Some PASTEL_BLUE),
         [(0, [run_content (styled_run (''Dataset Observations '' @ [CHR 0xF0, CHR 0x9F, CHR 0x93, CHR 0xB8]) 18 True)])]),
       ((TextBox, 457200, 5943600, 3606698, 548640), FillBackground,
         [(0, [run_content (styled_run (bullet_prefix @ ''Classifier handles varied conditions (day/night)'') 16 False)]),
          (0, [run_content (styled_run (bullet_prefix @ ''More diseased samples '' @ [CHR 0xE2, CHR 0x86, CHR 0x92] @ '' better performance'') 16 False)])]),
       ((AutoShape ROUNDED_RECTANGLE, 4292498, 5394960, 3606698, 457200), FillSolid (Some PASTEL_GREEN),
         [(0, [run_content (styled_run (''Model Choice '' @ [CHR 0xF0, CHR 0x9F, CHR 0x8F, CHR 0x8E, CHR 0xEF, CHR 0xB8, CHR 0x8F]) 18 True)])]),
       ((TextBox, 4292498, 5943600, 3606698, 548640), FillBackground,
         [(0, [run_content (styled_run (bullet_prefix @ ''Lightweight MobileViT2 outperforms larger models like EfficientNet'') 16 False)])]),
       ((AutoShape ROUNDED_RECTANGLE, 8127796, 5394960, 3606698, 457200), FillSolid (Some PASTEL_BLUE),
         [(0, [run_content (styled_run (''Takeaway '' @ [CHR 0xE2, CHR 0x9C, CHR 0x94, CHR 0xEF, CHR 0xB8, CHR 0x8F]) 18 True)])]),
       ((TextBox, 8127796, 5943600, 3606698, 548640), FillBackground,
         [(0, [run_content (styled_run (bullet_prefix @ ''Lightweight anomaly detector + classifier is optimal for deployment'') 16 False)]),
          (0, [run_content (styled_run (bullet_prefix @ ''Reduces data collection effort and maintains high recall'') 16 False)])])]]"
    apply (simp add: main_prs_def Let_def add_slide_def Presentation_def blank_slide_def
        add_badge_shapes add_bullets_shapes add_divider_shapes add_bottom_three_columns_shapes
        bottom_cols_def left_sections_def right_sections_def get_subs_def
        enumerate_simps column_shapes_def shape_content_def geometry_def badge_shape_def
        text_box_def outline_paragraphs_def column_paragraphs_def bullet_paragraph_def
        new_paragraph_def Inches_norm)
    apply code_simp
    done
  from run content main_dimensions show ?thesis by blast
qed

end
